theory Spec2Isabelle
  imports Complex_Main
begin

section \<open>Numbers and values\<close>

text \<open>
  The Python code computes on IEEE doubles. A finite double is modelled as the exact real
  it denotes (\<open>Fin\<close>); the two infinities and not-a-number, which numpy produces when
  the code divides by zero, are the other three values of \<open>fl\<close>. The operations
  of this section are exact on finite values; the operations that round as IEEE doubles
  do, used where a result depends on the rounding, follow in the section on double
  precision.
\<close>

datatype fl = Fin real | PInf | NInf | NaN

text \<open>Comparison of a double with a finite constant: every comparison with NaN is false.\<close>

fun fl_gt :: "fl \<Rightarrow> real \<Rightarrow> bool" where
  "fl_gt (Fin x) c = (x > c)"
| "fl_gt PInf c = True"
| "fl_gt NInf c = False"
| "fl_gt NaN c = False"

fun fl_ge :: "fl \<Rightarrow> real \<Rightarrow> bool" where
  "fl_ge (Fin x) c = (x \<ge> c)"
| "fl_ge PInf c = True"
| "fl_ge NInf c = False"
| "fl_ge NaN c = False"

fun fl_lt :: "fl \<Rightarrow> real \<Rightarrow> bool" where
  "fl_lt (Fin x) c = (x < c)"
| "fl_lt PInf c = False"
| "fl_lt NInf c = True"
| "fl_lt NaN c = False"

fun fl_le :: "fl \<Rightarrow> real \<Rightarrow> bool" where
  "fl_le (Fin x) c = (x \<le> c)"
| "fl_le PInf c = False"
| "fl_le NInf c = True"
| "fl_le NaN c = False"

fun fl_eq :: "fl \<Rightarrow> real \<Rightarrow> bool" where
  "fl_eq (Fin x) c = (x = c)"
| "fl_eq _ c = False"

text \<open>The real a finite double denotes; only read where the code has established finiteness.\<close>

fun fin_part :: "fl \<Rightarrow> real" where
  "fin_part (Fin x) = x"
| "fin_part _ = 0"

text \<open>
  numpy's division \<open>a / b\<close> of finite doubles: no exception on a zero divisor, but an
  infinity with the sign of \<open>a\<close>, or NaN for \<open>0 / 0\<close>. (Zero carries no sign in the model;
  the divisors of the code are prices, volumes and averages of them.)
\<close>

definition fdiv :: "real \<Rightarrow> real \<Rightarrow> fl" where
  "fdiv a b =
     (if b \<noteq> 0 then Fin (a / b)
      else if a > 0 then PInf
      else if a < 0 then NInf
      else NaN)"

fun fl_sub :: "fl \<Rightarrow> fl \<Rightarrow> fl" where
  "fl_sub (Fin a) (Fin b) = Fin (a - b)"
| "fl_sub NaN _ = NaN"
| "fl_sub _ NaN = NaN"
| "fl_sub PInf PInf = NaN"
| "fl_sub NInf NInf = NaN"
| "fl_sub PInf _ = PInf"
| "fl_sub NInf _ = NInf"
| "fl_sub (Fin a) PInf = NInf"
| "fl_sub (Fin a) NInf = PInf"

text \<open>Multiplication by a positive finite constant.\<close>

fun fl_scale :: "fl \<Rightarrow> real \<Rightarrow> fl" where
  "fl_scale (Fin a) c = Fin (a * c)"
| "fl_scale x c = x"

fun fl_add :: "fl \<Rightarrow> fl \<Rightarrow> fl" where
  "fl_add (Fin a) (Fin b) = Fin (a + b)"
| "fl_add NaN _ = NaN"
| "fl_add _ NaN = NaN"
| "fl_add PInf NInf = NaN"
| "fl_add NInf PInf = NaN"
| "fl_add PInf _ = PInf"
| "fl_add NInf _ = NInf"
| "fl_add (Fin a) PInf = PInf"
| "fl_add (Fin a) NInf = NInf"

text \<open>
  Python's \<open>round(x, nd)\<close>: the nearest multiple of \<open>10 ^ -nd\<close>, a tie going to the
  even multiple. Infinities and NaN are returned unchanged.
\<close>

definition py_round :: "real \<Rightarrow> nat \<Rightarrow> real" where
  "py_round x nd =
     (let s = x * 10 ^ nd;
          f = \<lfloor>s\<rfloor>;
          d = s - of_int f
      in (if d < 1 / 2 then of_int f
          else if 1 / 2 < d then of_int (f + 1)
          else if even f then of_int f
          else of_int (f + 1)) / 10 ^ nd)"

fun fl_round :: "fl \<Rightarrow> nat \<Rightarrow> fl" where
  "fl_round (Fin x) nd = Fin (py_round x nd)"
| "fl_round x nd = x"

text \<open>Python's \<open>int(x)\<close> on a finite float truncates towards zero.\<close>

definition py_int :: "real \<Rightarrow> int" where
  "py_int x = (if x \<ge> 0 then \<lfloor>x\<rfloor> else \<lceil>x\<rceil>)"

text \<open>
  The values a Python dict of this program holds. A dict is an association list in
  insertion order; \<open>d.get(k, v)\<close> is \<open>dict_get\<close>, \<open>k in d\<close> is \<open>has_key\<close>.
\<close>

datatype pyval =
    Num fl
  | Str string
  | Bool bool
  | NoneV
  | Dict "(string \<times> pyval) list"
  | Other

type_synonym pydict = "(string \<times> pyval) list"

definition dict_get :: "pydict \<Rightarrow> string \<Rightarrow> pyval \<Rightarrow> pyval" where
  "dict_get d k dflt = (case map_of d k of Some v \<Rightarrow> v | None \<Rightarrow> dflt)"

definition has_key :: "pydict \<Rightarrow> string \<Rightarrow> bool" where
  "has_key d k = (map_of d k \<noteq> None)"


abbreviation num :: "real \<Rightarrow> pyval" where
  "num x \<equiv> Num (Fin x)"

text \<open>Python errors the modelled functions can raise.\<close>

datatype py_error = IndexError | ValueError | KeyError

subsection \<open>Double precision\<close>

text \<open>
  Where a value depends on the rounding of the arithmetic, the operations are those of
  IEEE binary64 with rounding to nearest, ties to even. \<open>exponent x\<close> is the binary
  exponent of \<open>x\<close>, found by scanning down from 1023 and not below -1022, where the
  subnormal numbers begin; the unit in the last place is 52 binary places below it. The
  sign of zero is not modelled.
\<close>

definition round_half_even :: "real \<Rightarrow> int" where
  "round_half_even y =
     (let f = \<lfloor>y\<rfloor>;
          d = y - of_int f
      in if d < 1 / 2 then f
         else if 1 / 2 < d then f + 1
         else if even f then f
         else f + 1)"

fun exponent_from :: "nat \<Rightarrow> int \<Rightarrow> real \<Rightarrow> int" where
  "exponent_from 0 e a = e"
| "exponent_from (Suc n) e a = (if 2 powi e \<le> a then e else exponent_from n (e - 1) a)"

definition exponent :: "real \<Rightarrow> int" where
  "exponent x = exponent_from 2045 1023 \<bar>x\<bar>"

definition nearest_double :: "real \<Rightarrow> real" where
  "nearest_double x =
     (let ulp = 2 powi (exponent x - 52)
      in of_int (round_half_even (x / ulp)) * ulp)"


text \<open>Sum, difference, product and quotient of finite doubles whose result is finite.\<close>

definition dadd :: "real \<Rightarrow> real \<Rightarrow> real" where
  "dadd a b = nearest_double (a + b)"


definition dmul :: "real \<Rightarrow> real \<Rightarrow> real" where
  "dmul a b = nearest_double (a * b)"

definition ddiv :: "real \<Rightarrow> real \<Rightarrow> real" where
  "ddiv a b = nearest_double (a / b)"






section \<open>Score calculator (\<open>utils/score_calculator.py\<close>)\<close>

subsection \<open>Pattern score\<close>

text \<open>
  \<open>calculate_pattern_score\<close>: each detector result is a pair (found, evidence dict);
  the weights are 8 (VCP), 7 (pocket pivot) and 5 (breakout).
\<close>

definition calculate_pattern_score ::
  "bool \<times> pydict \<Rightarrow> bool \<times> pydict \<Rightarrow> bool \<times> pydict \<Rightarrow> real \<times> pydict" where
  "calculate_pattern_score vcp_result pivot_result breakout_result =
     (let (vcp_found, vcp_data) = vcp_result;
          (pivot_found, pivot_data) = pivot_result;
          (breakout_found, breakout_data) = breakout_result;
          score = (if vcp_found then 8 else 0) + (if pivot_found then 7 else 0)
                  + (if breakout_found then 5 else 0);
          details =
            [(''vcp_found'', Bool vcp_found)]
            @ (if vcp_data \<noteq> [] then [(''vcp_data'', Dict vcp_data)] else [])
            @ [(''pivot_found'', Bool pivot_found)]
            @ (if pivot_data \<noteq> [] then [(''pivot_data'', Dict pivot_data)] else [])
            @ [(''breakout_found'', Bool breakout_found)]
            @ (if breakout_data \<noteq> [] then [(''breakout_data'', Dict breakout_data)] else [])
      in (py_round score 1, details))"

subsection \<open>Investor-flow score\<close>

text \<open>
  The investor-flow dict, as \<open>_process_investor_data\<close> and
  \<open>_get_default_investor_data\<close> build it: numbers under the numeric keys, a string under
  \<open>data_source\<close>. A field is \<open>None\<close> when the key is absent. The argument of
  \<open>calculate_investor_score\<close> is \<open>None\<close> for a falsy input (Python \<open>None\<close> or the empty
  dict) and \<open>Some r\<close> for a non-empty dict, whatever other keys it carries.
\<close>

record investor_data =
  data_source :: "string option"
  foreign_net_buy :: "fl option"
  foreign_ratio :: "fl option"
  institution_net_buy :: "fl option"
  institution_ratio :: "fl option"
  net_buy_days :: "fl option"
  foreign_buy_days :: "fl option"
  institution_buy_days :: "fl option"
  short_selling_ratio :: "fl option"
  short_selling_volume :: "fl option"
  short_selling_balance :: "fl option"
  short_selling_days :: "fl option"

text \<open>\<open>investor_data.get(key, 0)\<close>.\<close>

definition get0 :: "fl option \<Rightarrow> fl" where
  "get0 v = (case v of Some x \<Rightarrow> x | None \<Rightarrow> Fin 0)"

text \<open>The message "investor data collection failed", in UTF-8.\<close>

definition msg_investor_failed :: string where
  "msg_investor_failed =
     [CHR 0xED, CHR 0x88, CHR 0xAC, CHR 0xEC, CHR 0x9E, CHR 0x90, CHR 0xEC, CHR 0x9E, CHR 0x90,
      CHR 0x20, CHR 0xEB, CHR 0x8D, CHR 0xB0, CHR 0xEC, CHR 0x9D, CHR 0xB4, CHR 0xED, CHR 0x84,
      CHR 0xB0, CHR 0x20, CHR 0xEC, CHR 0x88, CHR 0x98, CHR 0xEC, CHR 0xA7, CHR 0x91, CHR 0x20,
      CHR 0xEC, CHR 0x8B, CHR 0xA4, CHR 0xED, CHR 0x8C, CHR 0xA8]"

definition foreign_points :: "fl \<Rightarrow> fl \<Rightarrow> real" where
  "foreign_points foreign_net foreign_ratio' =
     (if fl_gt foreign_net 0 then
        (if fl_ge foreign_ratio' 5 then 4
         else if fl_ge foreign_ratio' 2 then 3
         else if fl_ge foreign_ratio' 1 then 2
         else if fl_gt foreign_ratio' 0 then 1
         else 0)
      else 0)"

definition institution_points :: "fl \<Rightarrow> fl \<Rightarrow> real" where
  "institution_points institution_net institution_ratio' =
     (if fl_gt institution_net 0 then
        (if fl_ge institution_ratio' 3 then 4
         else if fl_ge institution_ratio' (3 / 2) then 3
         else if fl_ge institution_ratio' (1 / 2) then 2
         else if fl_gt institution_ratio' 0 then 1
         else 0)
      else 0)"

definition consecutive_score :: "fl \<Rightarrow> fl \<Rightarrow> fl \<Rightarrow> real" where
  "consecutive_score net_buy_days' foreign_buy_days' institution_buy_days' =
     (let c = (if fl_ge net_buy_days' 15 then 2
               else if fl_ge net_buy_days' 10 then 3 / 2
               else if fl_ge net_buy_days' 5 then 1
               else if fl_ge net_buy_days' 3 then 1 / 2
               else 0)
      in if fl_ge foreign_buy_days' 3 \<and> fl_ge institution_buy_days' 3
         then min (c + 1 / 2) 2 else c)"

definition short_points :: "fl \<Rightarrow> real" where
  "short_points short_ratio =
     (if fl_le short_ratio 1 then 2
      else if fl_le short_ratio 3 then 3 / 2
      else if fl_le short_ratio 5 then 1
      else if fl_le short_ratio 10 then 1 / 2
      else 0)"

definition calculate_investor_score :: "investor_data option \<Rightarrow> real \<Rightarrow> real \<times> pydict" where
  "calculate_investor_score investor_data max_points =
     (case investor_data of
        None \<Rightarrow> (0, [])
      | Some d \<Rightarrow>
          (let data_source' = (case data_source d of Some s \<Rightarrow> s | None \<Rightarrow> ''unknown'')
           in if data_source' = ''default'' then
                (0, [(''foreign_net_buy'', num 0), (''foreign_ratio'', num 0),
                     (''institution_net_buy'', num 0), (''institution_ratio'', num 0),
                     (''net_buy_days'', num 0), (''short_selling_volume'', num 0),
                     (''short_selling_ratio'', num 0), (''short_selling_balance'', num 0),
                     (''short_selling_days'', num 0), (''data_source'', Str data_source'),
                     (''message'', Str msg_investor_failed)])
              else
                (let foreign_net = get0 (foreign_net_buy d);
                     foreign_ratio' = get0 (foreign_ratio d);
                     institution_net = get0 (institution_net_buy d);
                     institution_ratio' = get0 (institution_ratio d);
                     net_buy_days' = get0 (net_buy_days d);
                     foreign_buy_days' = get0 (foreign_buy_days d);
                     institution_buy_days' = get0 (institution_buy_days d);
                     consecutive = consecutive_score net_buy_days' foreign_buy_days' institution_buy_days';
                     short_ratio = get0 (short_selling_ratio d);
                     short_volume = get0 (short_selling_volume d);
                     short_balance = get0 (short_selling_balance d);
                     short_days = get0 (short_selling_days d);
                     score = foreign_points foreign_net foreign_ratio'
                             + institution_points institution_net institution_ratio'
                             + consecutive
                             + short_points short_ratio;
                     details =
                       [(''foreign_net_buy'', Num foreign_net),
                        (''foreign_ratio'', Num (fl_round foreign_ratio' 2)),
                        (''institution_net_buy'', Num institution_net),
                        (''institution_ratio'', Num (fl_round institution_ratio' 2)),
                        (''net_buy_days'', Num net_buy_days'),
                        (''foreign_buy_days'', Num foreign_buy_days'),
                        (''institution_buy_days'', Num institution_buy_days'),
                        (''consecutive_score'', num consecutive),
                        (''short_selling_volume'', Num short_volume),
                        (''short_selling_ratio'', Num (fl_round short_ratio 2)),
                        (''short_selling_balance'', Num short_balance),
                        (''short_selling_days'', Num short_days),
                        (''data_source'', Str data_source')]
                 in (min (py_round score 1) max_points, details))))"

subsection \<open>Fundamental score\<close>

text \<open>The ASCII lower-casing that \<open>str.lower\<close> performs on the strings compared here.\<close>

definition lower_char :: "char \<Rightarrow> char" where
  "lower_char c =
     (let n = (of_char c :: nat) in if 65 \<le> n \<and> n \<le> 90 then char_of (n + 32) else c)"

definition lower :: "string \<Rightarrow> string" where
  "lower s = map lower_char s"

text \<open>
  The local helper \<open>safe_number(value, default=0.0)\<close>. Python's \<open>float\<close> on a string
  is the parameter \<open>float_of_str\<close> (\<open>None\<close> when it raises \<open>ValueError\<close>); a NaN float
  prints as \<open>nan\<close> and gives the default; \<open>float\<close> of a dict or a list raises
  \<open>TypeError\<close>, which is caught.
\<close>

definition safe_number :: "(string \<Rightarrow> fl option) \<Rightarrow> pyval \<Rightarrow> fl" where
  "safe_number float_of_str v =
     (case v of
        NoneV \<Rightarrow> Fin 0
      | Num NaN \<Rightarrow> Fin 0
      | Num x \<Rightarrow> x
      | Bool b \<Rightarrow> Fin (if b then 1 else 0)
      | Str s \<Rightarrow>
          (if s = [] \<or> lower s \<in> {''nan'', ''none'', ''null''} then Fin 0
           else (case float_of_str s of Some x \<Rightarrow> x | None \<Rightarrow> Fin 0))
      | Dict _ \<Rightarrow> Fin 0
      | Other \<Rightarrow> Fin 0)"

text \<open>\<open>sum(scores.values())\<close> over the numeric entries of the local dict \<open>scores\<close>.\<close>

fun num_values :: "pydict \<Rightarrow> real list" where
  "num_values [] = []"
| "num_values ((k, Num (Fin x)) # d) = x # num_values d"
| "num_values (_ # d) = num_values d"

text \<open>The messages "no financial data", "valuation data insufficient" and
  "financial data insufficient", in UTF-8.\<close>

definition msg_no_financial_data :: string where
  "msg_no_financial_data =
     [CHR 0xEC, CHR 0x9E, CHR 0xAC, CHR 0xEB, CHR 0xAC, CHR 0xB4, CHR 0x20, CHR 0xEB, CHR 0x8D,
      CHR 0xB0, CHR 0xEC, CHR 0x9D, CHR 0xB4, CHR 0xED, CHR 0x84, CHR 0xB0, CHR 0x20, CHR 0xEC,
      CHR 0x97, CHR 0x86, CHR 0xEC, CHR 0x9D, CHR 0x8C]"

definition msg_valuation_insufficient :: string where
  "msg_valuation_insufficient =
     [CHR 0xEA, CHR 0xB0, CHR 0x80, CHR 0xEC, CHR 0xB9, CHR 0x98, CHR 0xED, CHR 0x8F, CHR 0x89,
      CHR 0xEA, CHR 0xB0, CHR 0x80, CHR 0x20, CHR 0xEC, CHR 0xA7, CHR 0x80, CHR 0xED, CHR 0x91,
      CHR 0x9C, CHR 0x20, CHR 0xEB, CHR 0x8D, CHR 0xB0, CHR 0xEC, CHR 0x9D, CHR 0xB4, CHR 0xED,
      CHR 0x84, CHR 0xB0, CHR 0x20, CHR 0xEB, CHR 0xB6, CHR 0x80, CHR 0xEC, CHR 0xA1, CHR 0xB1]"

definition msg_financial_insufficient :: string where
  "msg_financial_insufficient =
     [CHR 0xEC, CHR 0x9E, CHR 0xAC, CHR 0xEB, CHR 0xAC, CHR 0xB4, CHR 0x20, CHR 0xEB, CHR 0x8D,
      CHR 0xB0, CHR 0xEC, CHR 0x9D, CHR 0xB4, CHR 0xED, CHR 0x84, CHR 0xB0, CHR 0x20, CHR 0xEB,
      CHR 0xB6, CHR 0x80, CHR 0xEC, CHR 0xA1, CHR 0xB1]"

text \<open>
  The tier ladders of the function. Each is the \<open>if\<close>/\<open>elif\<close> chain of the source with
  its point values as arguments: \<open>ge_ladder\<close> for the ratios where more is better
  (the last step is linear below the lowest threshold), \<open>multiple_ladder\<close> for PER and
  PBR, \<open>debt_ladder\<close> for the debt ratio.
\<close>

definition ge_ladder ::
  "fl \<Rightarrow> real \<Rightarrow> real \<Rightarrow> real \<Rightarrow> real \<Rightarrow> real \<Rightarrow> real \<Rightarrow> real \<Rightarrow> real" where
  "ge_ladder x t1 p1 t2 p2 t3 p3 slope =
     (if fl_ge x t1 then p1
      else if fl_ge x t2 then p2
      else if fl_ge x t3 then p3
      else if fl_gt x 0 then fin_part x * slope
      else 0)"

definition ge_ladder2 :: "fl \<Rightarrow> real \<Rightarrow> real \<Rightarrow> real \<Rightarrow> real \<Rightarrow> real \<Rightarrow> real" where
  "ge_ladder2 x t1 p1 t2 p2 slope =
     (if fl_ge x t1 then p1
      else if fl_ge x t2 then p2
      else if fl_gt x 0 then fin_part x * slope
      else 0)"

definition multiple_ladder :: "fl \<Rightarrow> real \<Rightarrow> real \<Rightarrow> real \<Rightarrow> real \<Rightarrow> real \<Rightarrow> real \<Rightarrow> real" where
  "multiple_ladder x t1 p1 t2 p2 t3 p3 =
     (if fl_gt x 0 \<and> fl_le x t1 then p1
      else if fl_gt x t1 \<and> fl_le x t2 then p2
      else if fl_gt x t2 \<and> fl_le x t3 then p3
      else if fl_gt x t3 then 1
      else 0)"

definition debt_ladder :: "fl \<Rightarrow> real" where
  "debt_ladder debt_ratio =
     (if fl_le debt_ratio 30 then 2
      else if fl_le debt_ratio 50 then 3 / 2
      else if fl_le debt_ratio 100 then 1
      else if fl_le debt_ratio 200 then 1 / 2
      else 0)"

text \<open>Branch \<open>data_source == 'f_data_fundamental'\<close>: ROE 12, PER 9, PBR 9.\<close>

definition scores_f_data_fundamental :: "(string \<Rightarrow> fl option) \<Rightarrow> pydict \<Rightarrow> pydict" where
  "scores_f_data_fundamental fos financial_data =
     (let roe = safe_number fos (dict_get financial_data ''roe'' (num 0));
          per = safe_number fos (dict_get financial_data ''per'' (num 0));
          pbr = safe_number fos (dict_get financial_data ''pbr'' (num 0));
          roe_score = ge_ladder roe 15 12 10 8 5 4 (8 / 10);
          per_score = multiple_ladder per 10 9 15 6 25 3;
          pbr_score = multiple_ladder pbr 1 9 (3 / 2) 6 3 3
      in [(''roe'', num (min roe_score 12)), (''per'', num per_score), (''pbr'', num pbr_score)])"

text \<open>Branch \<open>data_source == 'f_data_financial'\<close>: ROE 8, operating margin 7, revenue
  growth 7, operating-profit growth 6, debt ratio 2.\<close>

definition scores_f_data_financial :: "(string \<Rightarrow> fl option) \<Rightarrow> pydict \<Rightarrow> pydict" where
  "scores_f_data_financial fos financial_data =
     (let roe = safe_number fos (dict_get financial_data ''roe'' (num 0));
          debt_ratio = safe_number fos (dict_get financial_data ''debt_ratio'' (num 0));
          operating_margin = safe_number fos (dict_get financial_data ''operating_margin'' (num 0));
          revenue_yoy = safe_number fos (dict_get financial_data ''revenue_yoy'' (num 0));
          operating_profit_yoy =
            safe_number fos (dict_get financial_data ''operating_profit_yoy'' (num 0));
          roe_score = ge_ladder roe 15 8 10 6 5 4 (8 / 10);
          op_margin_score = ge_ladder operating_margin 10 7 5 5 2 3 (3 / 2);
          revenue_growth_score = ge_ladder revenue_yoy 20 7 10 5 5 3 (6 / 10);
          op_growth_score = ge_ladder operating_profit_yoy 25 6 15 4 5 2 (4 / 10);
          debt_score = debt_ladder debt_ratio
      in [(''roe'', num (min roe_score 8)),
          (''operating_margin'', num (min op_margin_score 7)),
          (''revenue_growth'', num (min revenue_growth_score 7)),
          (''operating_profit_growth'', num (min op_growth_score 6)),
          (''debt_ratio'', num debt_score)])"

text \<open>Other sources, with both \<open>roe\<close> and \<open>debt_ratio\<close> present: the full rubric, growth
  split into year-on-year and quarter-on-quarter points.\<close>

definition scores_full :: "(string \<Rightarrow> fl option) \<Rightarrow> pydict \<Rightarrow> pydict" where
  "scores_full fos financial_data =
     (let roe = safe_number fos (dict_get financial_data ''roe'' (num 0));
          debt_ratio = safe_number fos (dict_get financial_data ''debt_ratio'' (num 0));
          operating_margin = safe_number fos (dict_get financial_data ''operating_margin'' (num 0));
          sales_yoy = safe_number fos (dict_get financial_data ''sales_yoy'' (num 0));
          op_income_yoy = safe_number fos (dict_get financial_data ''op_income_yoy'' (num 0));
          sales_qoq = safe_number fos (dict_get financial_data ''sales_qoq'' (num 0));
          op_income_qoq = safe_number fos (dict_get financial_data ''op_income_qoq'' (num 0));
          roe_score = ge_ladder roe 15 8 10 6 5 4 (8 / 10);
          op_margin_score = ge_ladder operating_margin 10 7 5 5 2 3 (3 / 2);
          sales_yoy_score = ge_ladder sales_yoy 20 5 10 4 5 3 (6 / 10);
          sales_qoq_score = ge_ladder2 sales_qoq 10 2 5 (3 / 2) (3 / 10);
          revenue_growth_score = min (sales_yoy_score + sales_qoq_score) 7;
          op_yoy_score = ge_ladder op_income_yoy 25 4 15 3 5 2 (4 / 10);
          op_qoq_score = ge_ladder2 op_income_qoq 15 2 5 1 (2 / 10);
          op_growth_score = min (op_yoy_score + op_qoq_score) 6;
          debt_score = debt_ladder debt_ratio
      in [(''roe'', num (min roe_score 8)),
          (''operating_margin'', num (min op_margin_score 7)),
          (''revenue_growth'', num revenue_growth_score),
          (''operating_profit_growth'', num op_growth_score),
          (''debt_ratio'', num debt_score)])"

text \<open>Other sources, with \<open>per\<close> or \<open>pbr\<close> present: the valuation rubric (PER 12, PBR 12,
  dividend yield 6), or 5 points when all three figures are zero. The result is the pair
  of the local \<open>total_score\<close> and \<open>scores\<close>.\<close>

definition scores_valuation :: "(string \<Rightarrow> fl option) \<Rightarrow> pydict \<Rightarrow> real \<times> pydict" where
  "scores_valuation fos financial_data =
     (let per = safe_number fos (dict_get financial_data ''per'' (num 0));
          pbr = safe_number fos (dict_get financial_data ''pbr'' (num 0));
          dividend_yield = safe_number fos (dict_get financial_data ''dividend_yield'' (num 0))
      in if fl_eq per 0 \<and> fl_eq pbr 0 \<and> fl_eq dividend_yield 0 then
           (5, [(''per'', num 0), (''pbr'', num 0), (''dividend_yield'', num 0),
                (''message'', Str msg_valuation_insufficient)])
         else
           (let per_score = multiple_ladder per 10 12 15 8 25 4;
                pbr_score = multiple_ladder pbr 1 12 (3 / 2) 8 3 4;
                div_score = ge_ladder2 dividend_yield 4 6 2 4 2;
                scores = [(''per'', num per_score), (''pbr'', num pbr_score),
                          (''dividend_yield'', num div_score)]
            in (sum_list (num_values scores), scores)))"

text \<open>The local \<open>total_score\<close> and \<open>scores\<close> after the source dispatch.\<close>

definition fundamental_total :: "(string \<Rightarrow> fl option) \<Rightarrow> pydict \<Rightarrow> pyval \<Rightarrow> real \<times> pydict" where
  "fundamental_total fos financial_data data_source' =
     (if data_source' = Str ''f_data_fundamental'' then
        (let scores = scores_f_data_fundamental fos financial_data
         in (sum_list (num_values scores), scores))
      else if data_source' = Str ''f_data_financial'' then
        (let scores = scores_f_data_financial fos financial_data
         in (sum_list (num_values scores), scores))
      else if has_key financial_data ''roe'' \<and> has_key financial_data ''debt_ratio'' then
        (let scores = scores_full fos financial_data
         in (sum_list (num_values scores), scores))
      else if has_key financial_data ''per'' \<or> has_key financial_data ''pbr'' then
        scores_valuation fos financial_data
      else
        (3, [(''message'', Str msg_financial_insufficient)]))"

text \<open>The early return for a falsy argument (\<open>None\<close> or the empty dict).\<close>

definition no_financial_data_result :: "real \<times> pydict" where
  "no_financial_data_result =
     (0, [(''profitability'', Dict [(''roe'', num 0), (''operating_margin'', num 0),
                                   (''net_margin'', num 0)]),
          (''growth'', Dict [(''revenue_growth'', num 0), (''operating_profit_growth'', num 0),
                            (''net_income_growth'', num 0)]),
          (''stability'', Dict [(''debt_ratio'', num 0)]),
          (''valuation'', Dict [(''per'', num 0), (''pbr'', num 0), (''dividend_yield'', num 0)]),
          (''data_source'', Str ''none''),
          (''message'', Str msg_no_financial_data)])"

definition calculate_fundamental_score ::
  "(string \<Rightarrow> fl option) \<Rightarrow> pydict option \<Rightarrow> real \<times> pydict" where
  "calculate_fundamental_score fos financial_data =
     (case financial_data of
        None \<Rightarrow> no_financial_data_result
      | Some fd \<Rightarrow>
          if fd = [] then no_financial_data_result
          else
          (let data_source' = dict_get fd ''source'' (dict_get fd ''data_source'' (Str ''unknown''));
               (total_score, scores) = fundamental_total fos fd data_source';
               final_score = min (py_round total_score 1) 30;
               details =
                 [(''profitability'',
                     Dict [(''roe'', dict_get scores ''roe'' (num 0)),
                           (''operating_margin'', dict_get scores ''operating_margin'' (num 0)),
                           (''net_margin'', dict_get scores ''net_margin'' (num 0))]),
                  (''growth'',
                     Dict [(''revenue_growth'', dict_get scores ''revenue_growth'' (num 0)),
                           (''operating_profit_growth'',
                              dict_get scores ''operating_profit_growth'' (num 0)),
                           (''net_income_growth'', dict_get scores ''net_income_growth'' (num 0)),
                           (''revenue_yoy'',
                              Num (safe_number fos
                                (dict_get fd ''revenue_yoy'' (dict_get fd ''sales_yoy'' (num 0))))),
                           (''operating_profit_yoy'',
                              Num (safe_number fos
                                (dict_get fd ''operating_profit_yoy''
                                   (dict_get fd ''op_income_yoy'' (num 0))))),
                           (''net_income_yoy'',
                              Num (safe_number fos (dict_get fd ''net_income_yoy'' (num 0))))]),
                  (''stability'', Dict [(''debt_ratio'', dict_get scores ''debt_ratio'' (num 0))]),
                  (''valuation'',
                     Dict [(''per'', dict_get scores ''per'' (num 0)),
                           (''pbr'', dict_get scores ''pbr'' (num 0)),
                           (''dividend_yield'', dict_get scores ''dividend_yield'' (num 0))]),
                  (''data_source'', data_source'),
                  (''scores_detail'', Dict scores)]
           in (final_score, details)))"

subsection \<open>Composite score\<close>


section \<open>Price frames and indicators (\<open>utils/stock_data.py\<close>)\<close>

text \<open>
  A normalised price series is a list of bars in date order, the five columns
  \<open>_normalize_price_data\<close> guarantees, with finite values. An indicator frame is what
  \<open>calculate_indicators\<close> returns: the list of column names and one row per bar. The
  columns that numpy can fill with NaN or an infinity from finite prices (the Bollinger
  bands, the returns, RSI) hold an \<open>fl\<close>; the others hold a real. The columns
  \<open>52W_High\<close> and \<open>52W_Low\<close> are the fields \<open>W52_High\<close> and \<open>W52_Low\<close>.
\<close>

record bar =
  Open :: real
  High :: real
  Low :: real
  Close :: real
  Volume :: real

record row = bar +
  MA20 :: real
  MA60 :: real
  MA120 :: real
  BB_Middle :: real
  Upper_Band :: fl
  Lower_Band :: fl
  Volume_MA5 :: real
  Volume_MA20 :: real
  W52_High :: real
  W52_Low :: real
  Return_1D :: fl
  Return_13W :: fl
  Return_26W :: fl
  RSI :: fl
  MACD :: real
  MACD_Signal :: real
  MACD_Histogram :: real

record frame =
  columns :: "string list"
  rows :: "row list"

definition price_columns :: "string list" where
  "price_columns = [''Open'', ''High'', ''Low'', ''Close'', ''Volume'']"

definition indicator_columns :: "string list" where
  "indicator_columns =
     [''MA20'', ''MA60'', ''MA120'', ''BB_Middle'', ''Upper_Band'', ''Lower_Band'',
      ''Volume_MA5'', ''Volume_MA20'', ''52W_High'', ''52W_Low'',
      ''Return_1D'', ''Return_13W'', ''Return_26W'', ''RSI'',
      ''MACD'', ''MACD_Signal'', ''MACD_Histogram'']"

text \<open>\<open>df.empty\<close>: no rows or no columns.\<close>

definition frame_empty :: "frame \<Rightarrow> bool" where
  "frame_empty df = (rows df = [] \<or> columns df = [])"

definition has_column :: "frame \<Rightarrow> string \<Rightarrow> bool" where
  "has_column df c = (c \<in> set (columns df))"

subsection \<open>Series operations\<close>

text \<open>The window of a \<open>rolling(window=w)\<close> at position \<open>i\<close>: the at most \<open>w\<close> values
  that end there.\<close>

definition rolling_window :: "nat \<Rightarrow> 'a list \<Rightarrow> nat \<Rightarrow> 'a list" where
  "rolling_window w xs i = drop (Suc i - w) (take (Suc i) xs)"

text \<open>\<open>s.tail(k)\<close> and \<open>s.iloc[-k]\<close> (for \<open>1 \<le> k \<le> len(s)\<close>).\<close>

definition tail :: "nat \<Rightarrow> 'a list \<Rightarrow> 'a list" where
  "tail k xs = drop (length xs - k) xs"

definition iloc_neg :: "'a list \<Rightarrow> nat \<Rightarrow> 'a" where
  "iloc_neg xs k = xs ! (length xs - k)"

definition mean :: "real list \<Rightarrow> real" where
  "mean xs = sum_list xs / real (length xs)"

text \<open>\<open>rolling(window=w, min_periods=1).mean()\<close>: the window is never empty.\<close>

definition rolling_mean :: "nat \<Rightarrow> real list \<Rightarrow> nat \<Rightarrow> real" where
  "rolling_mean w xs i = mean (rolling_window w xs i)"

primrec max_from :: "real \<Rightarrow> real list \<Rightarrow> real" where
  "max_from m [] = m"
| "max_from m (x # xs) = max_from (max m x) xs"

primrec min_from :: "real \<Rightarrow> real list \<Rightarrow> real" where
  "min_from m [] = m"
| "min_from m (x # xs) = min_from (min m x) xs"

text \<open>\<open>s.max()\<close> and \<open>s.min()\<close>: NaN on an empty series.\<close>

definition series_max :: "real list \<Rightarrow> fl" where
  "series_max xs = (case xs of [] \<Rightarrow> NaN | x # r \<Rightarrow> Fin (max_from x r))"

definition series_min :: "real list \<Rightarrow> fl" where
  "series_min xs = (case xs of [] \<Rightarrow> NaN | x # r \<Rightarrow> Fin (min_from x r))"

text \<open>The sample standard deviation (\<open>ddof = 1\<close>): NaN on fewer than two values.\<close>

definition sample_std :: "real list \<Rightarrow> fl" where
  "sample_std xs =
     (if length xs < 2 then NaN
      else Fin (sqrt (sum_list (map (\<lambda>x. (x - mean xs)\<^sup>2) xs) / real (length xs - 1))))"

text \<open>\<open>rolling(window=w, min_periods=m).std()\<close>.\<close>

definition rolling_std :: "nat \<Rightarrow> nat \<Rightarrow> real list \<Rightarrow> nat \<Rightarrow> fl" where
  "rolling_std w m xs i =
     (let ws = rolling_window w xs i in if length ws < m then NaN else sample_std ws)"

text \<open>\<open>s.pct_change(periods=k)\<close>: \<open>s / s.shift(k) - 1\<close>.\<close>

definition pct_change :: "nat \<Rightarrow> real list \<Rightarrow> nat \<Rightarrow> fl" where
  "pct_change k xs i = (if i < k then NaN else fl_sub (fdiv (xs ! i) (xs ! (i - k))) (Fin 1))"

text \<open>\<open>s.ewm(span=n, adjust=False).mean()\<close>: \<open>y\<^sub>0 = x\<^sub>0\<close> and
  \<open>y\<^sub>t = (1 - \<alpha>) y\<^sub>t\<^sub>-\<^sub>1 + \<alpha> x\<^sub>t\<close> with \<open>\<alpha> = 2 / (n + 1)\<close>.\<close>

primrec ewm_from :: "real \<Rightarrow> real \<Rightarrow> real list \<Rightarrow> real list" where
  "ewm_from a y [] = []"
| "ewm_from a y (x # xs) = ((1 - a) * y + a * x) # ewm_from a ((1 - a) * y + a * x) xs"

definition ewm :: "nat \<Rightarrow> real list \<Rightarrow> real list" where
  "ewm n xs = (case xs of [] \<Rightarrow> [] | x # r \<Rightarrow> x # ewm_from (2 / (real n + 1)) x r)"

subsection \<open>RSI\<close>

text \<open>
  \<open>delta = Close.diff()\<close> is NaN on the first row, where \<open>delta.where(delta > 0, 0)\<close> and
  \<open>delta.where(delta < 0, 0)\<close> put 0; so the gain and the loss series hold no NaN.
\<close>

definition gain_series :: "real list \<Rightarrow> real list" where
  "gain_series xs =
     map (\<lambda>i. if 0 < i \<and> xs ! i - xs ! (i - 1) > 0 then xs ! i - xs ! (i - 1) else 0)
       [0..<length xs]"

definition loss_series :: "real list \<Rightarrow> real list" where
  "loss_series xs =
     map (\<lambda>i. if 0 < i \<and> xs ! i - xs ! (i - 1) < 0 then - (xs ! i - xs ! (i - 1)) else 0)
       [0..<length xs]"

text \<open>
  \<open>100 - (100 / (1 + rs))\<close> with \<open>rs = gain / loss\<close>, the two 14-period rolling means.
  With no loss in the window \<open>rs\<close> is an infinity when there is a gain (\<open>100 / (1 + rs)\<close> is
  then a zero, whatever the sign, and the RSI is 100) and NaN when there is none.
\<close>

definition rsi_value :: "real \<Rightarrow> real \<Rightarrow> fl" where
  "rsi_value gain loss =
     (case fdiv gain loss of
        Fin rs \<Rightarrow> fl_sub (Fin 100) (fdiv 100 (1 + rs))
      | PInf \<Rightarrow> Fin 100
      | NInf \<Rightarrow> Fin 100
      | NaN \<Rightarrow> NaN)"

subsection \<open>\<open>calculate_indicators\<close>\<close>

definition macd_series :: "real list \<Rightarrow> real list" where
  "macd_series closes = map2 (\<lambda>e1 e2. e1 - e2) (ewm 12 closes) (ewm 26 closes)"

text \<open>Row \<open>i\<close> of the result.\<close>

definition indicator_row :: "bar list \<Rightarrow> nat \<Rightarrow> row" where
  "indicator_row bars i =
     (let b = bars ! i;
          closes = map Close bars;
          volumes = map Volume bars;
          ma20 = rolling_mean 20 closes i;
          bb_std = rolling_std 20 1 closes i;
          macd = macd_series closes;
          signal = ewm 9 macd
      in \<lparr>Open = Open b, High = High b, Low = Low b, Close = Close b, Volume = Volume b,
          MA20 = ma20,
          MA60 = rolling_mean 60 closes i,
          MA120 = rolling_mean 120 closes i,
          BB_Middle = ma20,
          Upper_Band = fl_add (Fin ma20) (fl_scale bb_std 2),
          Lower_Band = fl_sub (Fin ma20) (fl_scale bb_std 2),
          Volume_MA5 = rolling_mean 5 volumes i,
          Volume_MA20 = rolling_mean 20 volumes i,
          W52_High = fin_part (series_max (rolling_window 252 (map High bars) i)),
          W52_Low = fin_part (series_min (rolling_window 252 (map Low bars) i)),
          Return_1D = pct_change 1 closes i,
          Return_13W = pct_change 65 closes i,
          Return_26W = pct_change 130 closes i,
          RSI = rsi_value (rolling_mean 14 (gain_series closes) i)
                          (rolling_mean 14 (loss_series closes) i),
          MACD = macd ! i,
          MACD_Signal = signal ! i,
          MACD_Histogram = macd ! i - signal ! i\<rparr>)"

text \<open>
  \<open>StockDataCollector.calculate_indicators\<close>: an empty frame is returned as it is;
  otherwise every indicator column is added to a copy, one value per row.
\<close>

definition calculate_indicators :: "bar list \<Rightarrow> frame" where
  "calculate_indicators bars =
     (if bars = [] then \<lparr>columns = price_columns, rows = []\<rparr>
      else \<lparr>columns = price_columns @ indicator_columns,
            rows = map (indicator_row bars) [0..<length bars]\<rparr>)"

section \<open>Score calculator: scores read from frames\<close>

subsection \<open>Trend score\<close>

text \<open>
  The slope test \<open>(latest / earlier - 1) * 100 > 0\<close> on two moving averages; numpy
  divides by a zero average without raising.
\<close>

definition slope_positive :: "real \<Rightarrow> real \<Rightarrow> bool" where
  "slope_positive latest earlier =
     (case fdiv latest earlier of
        Fin q \<Rightarrow> (q - 1) * 100 > 0
      | PInf \<Rightarrow> True
      | NInf \<Rightarrow> False
      | NaN \<Rightarrow> False)"

definition volume_tier :: "real \<Rightarrow> real" where
  "volume_tier volume_ratio_20d =
     (if volume_ratio_20d \<ge> 2 then 7
      else if volume_ratio_20d \<ge> 3 / 2 then 6
      else if volume_ratio_20d \<ge> 13 / 10 then 5
      else if volume_ratio_20d \<ge> 11 / 10 then 4
      else if volume_ratio_20d \<ge> 1 then 3
      else if volume_ratio_20d \<ge> 8 / 10 then 2
      else if volume_ratio_20d \<ge> 5 / 10 then 1
      else 0)"

text \<open>
  \<open>calculate_trend_score\<close>, section by section; each section gives the points it adds
  to \<open>score\<close> and the entries it adds to \<open>details\<close>. Nothing in the two \<open>try\<close> blocks
  raises on finite values, so their \<open>except\<close> branches are not reached.
\<close>

definition ma_alignment_section :: "frame \<Rightarrow> real \<times> pydict" where
  "ma_alignment_section stock_data =
     (let latest = last (rows stock_data);
          ma_alignment_score =
            (if Close latest > MA20 latest then 3 else 0)
            + (if MA20 latest > MA60 latest then 3 else 0)
      in if has_column stock_data ''MA20'' \<and> has_column stock_data ''MA60''
         then (ma_alignment_score / 6 * 6, [(''ma_alignment_score'', num ma_alignment_score)])
         else (0, []))"

definition ma_trend_section :: "frame \<Rightarrow> real \<times> pydict" where
  "ma_trend_section stock_data =
     (let rs = rows stock_data;
          n = length rs;
          latest = last rs;
          ma_trend_score =
            (if has_column stock_data ''MA20''
                \<and> slope_positive (MA20 latest) (MA20 (iloc_neg rs 20)) then 2 else 0)
            + (if has_column stock_data ''MA60'' \<and> n \<ge> 60
                \<and> slope_positive (MA60 latest) (MA60 (iloc_neg rs (min 60 (n - 1)))) then 2 else 0)
            + (if has_column stock_data ''MA120'' \<and> n \<ge> 120
                \<and> slope_positive (MA120 latest) (MA120 (iloc_neg rs (min 120 (n - 1))))
               then 2 else 0)
      in if n \<ge> 20
         then (ma_trend_score / 6 * 6, [(''ma_trend_score'', num ma_trend_score)])
         else (0, []))"

definition long_trend_section :: "frame \<Rightarrow> real \<times> pydict" where
  "long_trend_section stock_data =
     (let latest = last (rows stock_data);
          price_to_low_ratio = Close latest / W52_Low latest;
          long_trend_score =
            (if price_to_low_ratio \<ge> 3 / 2 then 6
             else if price_to_low_ratio \<ge> 13 / 10 then 4
             else if price_to_low_ratio \<ge> 12 / 10 then 2
             else 0)
      in if has_column stock_data ''52W_Low'' \<and> W52_Low latest > 0
         then (long_trend_score / 6 * 6,
               [(''price_to_52w_low'', num (py_round price_to_low_ratio 2)),
                (''long_trend_score'', num long_trend_score)])
         else (0, []))"

definition volume_section :: "frame \<Rightarrow> real \<times> pydict" where
  "volume_section stock_data =
     (let volumes = map Volume (rows stock_data);
          n = length volumes;
          recent_5d_volume = mean (tail 5 volumes);
          avg_volume_20 = mean (tail 20 volumes);
          avg_volume_60 = mean (tail (min 60 n) volumes);
          volume_ratio_20d = (if avg_volume_20 > 0 then recent_5d_volume / avg_volume_20 else 0);
          volume_ratio_60d = (if avg_volume_60 > 0 then recent_5d_volume / avg_volume_60 else 0);
          volume_score = (if volume_ratio_60d \<ge> 3 / 2
                          then min (volume_tier volume_ratio_20d + 1) 7
                          else volume_tier volume_ratio_20d)
      in if has_column stock_data ''Volume'' \<and> n \<ge> 20
         then (volume_score,
               [(''recent_5d_volume'', num (of_int (py_int recent_5d_volume))),
                (''avg_volume_20d'', num (of_int (py_int avg_volume_20))),
                (''avg_volume_60d'', num (of_int (py_int avg_volume_60))),
                (''volume_ratio_20d'', num (py_round volume_ratio_20d 2)),
                (''volume_ratio_60d'', num (py_round volume_ratio_60d 2)),
                (''volume_score'', num volume_score)])
         else (0, []))"

definition calculate_trend_score :: "frame \<Rightarrow> real \<times> pydict" where
  "calculate_trend_score stock_data =
     (if frame_empty stock_data then (0, [])
      else
        (let (s1, d1) = ma_alignment_section stock_data;
             (s2, d2) = ma_trend_section stock_data;
             (s3, d3) = long_trend_section stock_data;
             (s4, d4) = volume_section stock_data;
             score = s1 + s2 + s3 + s4
         in (py_round score 1, d1 @ d2 @ d3 @ d4)))"

subsection \<open>Relative-strength score\<close>

text \<open>
  \<open>min(max(rs / scale, 0), 1) * 12.5\<close> with Python's \<open>min\<close> and \<open>max\<close>, which keep a
  NaN first argument (every comparison with it is false).
\<close>

fun rs_points :: "fl \<Rightarrow> real \<Rightarrow> fl" where
  "rs_points (Fin rs) scale = Fin (min (max (rs / scale) 0) 1 * (25 / 2))"
| "rs_points PInf scale = Fin (25 / 2)"
| "rs_points NInf scale = Fin 0"
| "rs_points NaN scale = NaN"

text \<open>One horizon: the points added to \<open>score\<close> and the entries added to \<open>details\<close>.
  A NaN return on either side skips the horizon (\<open>np.isnan\<close>).\<close>

definition rs_horizon :: "bool \<Rightarrow> fl \<Rightarrow> fl \<Rightarrow> real \<Rightarrow> string \<Rightarrow> fl \<times> pydict" where
  "rs_horizon present stock_return market_return scale suffix =
     (if present \<and> stock_return \<noteq> NaN \<and> market_return \<noteq> NaN then
        (let rs = fl_sub stock_return market_return;
             rs_score = rs_points rs scale
         in (rs_score,
             [(''stock_return_'' @ suffix, Num (fl_round (fl_scale stock_return 100) 2)),
              (''market_return_'' @ suffix, Num (fl_round (fl_scale market_return 100) 2)),
              (''rs_'' @ suffix, Num (fl_round (fl_scale rs 100) 2)),
              (''rs_'' @ suffix @ ''_score'', Num (fl_round rs_score 1))]))
      else (Fin 0, []))"

definition calculate_rs_score :: "frame \<Rightarrow> frame \<Rightarrow> fl \<times> pydict" where
  "calculate_rs_score stock_data market_data =
     (if frame_empty stock_data \<or> frame_empty market_data then (Fin 0, [])
      else
        (let stock_latest = last (rows stock_data);
             market_latest = last (rows market_data);
             (s13, d13) = rs_horizon
                (has_column stock_data ''Return_13W'' \<and> has_column market_data ''Return_13W'')
                (Return_13W stock_latest) (Return_13W market_latest) (2 / 10) ''13w'';
             (s26, d26) = rs_horizon
                (has_column stock_data ''Return_26W'' \<and> has_column market_data ''Return_26W'')
                (Return_26W stock_latest) (Return_26W market_latest) (3 / 10) ''26w'';
             score = fl_add (fl_add (Fin 0) s13) s26
         in (fl_round score 1, d13 @ d26)))"

text \<open>Two returns that are the same infinity: their difference is NaN.\<close>

definition same_infinity :: "fl \<Rightarrow> fl \<Rightarrow> bool" where
  "same_infinity a b = ((a = PInf \<and> b = PInf) \<or> (a = NInf \<and> b = NInf))"

section \<open>Pattern analyzer (\<open>utils/pattern_analyzer.py\<close>)\<close>

text \<open>
  Each detector returns the pair (found, evidence dict), or raises. The frame carries the
  price columns; the indicator columns are read only where the code has checked that
  they are present. Window lengths are natural numbers.
\<close>

text \<open>\<open>s.mean()\<close> on a series that may hold NaN: the mean of the other values, NaN when
  there is none.\<close>

fun fin_values :: "fl list \<Rightarrow> real list" where
  "fin_values [] = []"
| "fin_values (Fin x # xs) = x # fin_values xs"
| "fin_values (_ # xs) = fin_values xs"

definition nan_mean :: "fl list \<Rightarrow> fl" where
  "nan_mean xs = (let v = fin_values xs in if v = [] then NaN else Fin (mean v))"

text \<open>Comparison and division of two values that are finite or NaN.\<close>

fun fl_less :: "fl \<Rightarrow> fl \<Rightarrow> bool" where
  "fl_less (Fin a) (Fin b) = (a < b)"
| "fl_less (Fin a) PInf = True"
| "fl_less NInf (Fin b) = True"
| "fl_less NInf PInf = True"
| "fl_less _ _ = False"

fun fl_quot :: "fl \<Rightarrow> real \<Rightarrow> fl" where
  "fl_quot (Fin a) b = Fin (a / b)"
| "fl_quot x b = x"

subsection \<open>Volatility contraction (VCP)\<close>

definition detect_vcp :: "frame \<Rightarrow> nat \<Rightarrow> real \<Rightarrow> nat \<Rightarrow> py_error + (bool \<times> pydict)" where
  "detect_vcp df window std_threshold min_periods =
     (if frame_empty df \<or> length (rows df) < window then Inr (False, [])
      else
        (let recent_df = tail window (rows df);
             range = map (\<lambda>r. High r - Low r) recent_df;
             volatility = map (rolling_std 20 min_periods range) [0..<length recent_df]
         in if min_periods > 20 then Inl ValueError
            else if length recent_df < 50 then Inr (False, [])
            else
              (let recent_volatility = nan_mean (tail 20 volatility);
                   previous_volatility = nan_mean (take 30 (tail 50 volatility));
                   vcp_found = fl_less recent_volatility (fl_scale previous_volatility std_threshold);
                   latest_values = last (rows df);
                   ma_aligned =
                     (has_column df ''MA20'' \<and> has_column df ''MA60'' \<and> has_column df ''MA120''
                      \<and> Close latest_values > MA20 latest_values
                      \<and> MA20 latest_values > MA60 latest_values
                      \<and> MA60 latest_values > MA120 latest_values);
                   vcp_data =
                     [(''recent_volatility'', Num recent_volatility),
                      (''previous_volatility'', Num previous_volatility),
                      (''volatility_ratio'',
                         if fl_gt previous_volatility 0
                         then Num (fl_quot recent_volatility (fin_part previous_volatility))
                         else num 0),
                      (''ma_aligned'', Bool ma_aligned)]
               in Inr (vcp_found \<and> ma_aligned, vcp_data))))"

subsection \<open>Pocket pivot\<close>

definition detect_pocket_pivot ::
  "frame \<Rightarrow> nat \<Rightarrow> nat \<Rightarrow> real \<Rightarrow> py_error + (bool \<times> pydict)" where
  "detect_pocket_pivot df window min_range volume_factor =
     (if frame_empty df \<or> length (rows df) < window then Inr (False, [])
      else
        (let recent_df = tail window (rows df)
         in if length recent_df < 2 then Inl IndexError
            else
              (let latest = last recent_df;
                   prev = iloc_neg recent_df 2;
                   volume_surge =
                     (has_column df ''Volume_MA20''
                      \<and> Volume latest > Volume_MA20 latest * volume_factor);
                   price_up = (Close latest > Close prev * (103 / 100));
                   above_ma =
                     (has_column df ''MA20'' \<and> has_column df ''MA60''
                      \<and> Close latest > MA20 latest \<and> MA20 latest > MA60 latest);
                   pivot_found = (volume_surge \<and> price_up \<and> above_ma);
                   pivot_data =
                     [(''volume_ratio'',
                         if has_column df ''Volume_MA20'' \<and> Volume_MA20 latest > 0
                         then num (Volume latest / Volume_MA20 latest) else num 0),
                      (''price_change_pct'',
                         Num (fl_scale (fl_sub (fdiv (Close latest) (Close prev)) (Fin 1)) 100)),
                      (''above_ma'', Bool above_ma)]
               in Inr (pivot_found, pivot_data))))"

subsection \<open>Breakout\<close>

definition detect_breakout ::
  "frame \<Rightarrow> nat \<Rightarrow> nat \<Rightarrow> real \<Rightarrow> py_error + (bool \<times> pydict)" where
  "detect_breakout df window consolidation_days breakout_pct =
     (if frame_empty df \<or> length (rows df) < window then Inr (False, [])
      else
        (let recent_df = tail window (rows df)
         in if length recent_df < consolidation_days + 5 then Inr (False, [])
            else
              (let resistance =
                     series_max (take consolidation_days
                                   (tail (consolidation_days + 5) (map High recent_df)));
                   latest = last recent_df;
                   breakout_price = fl_scale resistance (1 + breakout_pct / 100);
                   close_breakout = fl_lt resistance (Close latest);
                   volume_surge =
                     (has_column df ''Volume_MA20''
                      \<and> Volume latest > Volume_MA20 latest * (13 / 10));
                   breakout_found = (close_breakout \<and> volume_surge);
                   breakout_data =
                     [(''resistance_level'', Num resistance),
                      (''breakout_level'', Num breakout_price),
                      (''price_to_resistance_ratio'',
                         if fl_gt resistance 0 then num (Close latest / fin_part resistance)
                         else num 0),
                      (''volume_surge'', Bool volume_surge)]
               in Inr (breakout_found, breakout_data))))"

section \<open>Financial data collector: the resolver\<close>

subsection \<open>Codes and strings\<close>

text \<open>\<open>str(code).zfill(6)\<close> on a code given as a string: zeros on the left up to the
  width, after a leading sign.\<close>

definition zfill :: "nat \<Rightarrow> string \<Rightarrow> string" where
  "zfill width s =
     (case s of
        [] \<Rightarrow> replicate width CHR ''0''
      | c # rest \<Rightarrow>
          if c = CHR ''+'' \<or> c = CHR ''-''
          then c # replicate (width - length s) CHR ''0'' @ rest
          else replicate (width - length s) CHR ''0'' @ s)"

text \<open>\<open>str(i)\<close> of an integer, as the f-strings of the source print it.\<close>

fun str_of_nat :: "nat \<Rightarrow> string" where
  "str_of_nat n =
     (if n < 10 then [''0123456789'' ! n]
      else str_of_nat (n div 10) @ [''0123456789'' ! (n mod 10)])"

declare str_of_nat.simps [simp del]


text \<open>
  \<open>int(code)\<close> on a string of ASCII digits with an optional sign; \<open>None\<close> stands for
  the \<open>ValueError\<close>. Stock codes are digit strings: the blanks and underscores Python
  also accepts are not modelled.
\<close>

definition digit_value :: "char \<Rightarrow> nat option" where
  "digit_value c =
     (let n = (of_char c :: nat) in if 48 \<le> n \<and> n \<le> 57 then Some (n - 48) else None)"

fun digits_value :: "string \<Rightarrow> nat \<Rightarrow> nat option" where
  "digits_value [] acc = Some acc"
| "digits_value (c # cs) acc =
     (case digit_value c of Some d \<Rightarrow> digits_value cs (10 * acc + d) | None \<Rightarrow> None)"

definition int_of_str :: "string \<Rightarrow> int option" where
  "int_of_str s =
     (case s of
        [] \<Rightarrow> None
      | c # rest \<Rightarrow>
          if c = CHR ''-'' then
            (if rest = [] then None else map_option (\<lambda>n. - int n) (digits_value rest 0))
          else if c = CHR ''+'' then
            (if rest = [] then None else map_option int (digits_value rest 0))
          else map_option int (digits_value s 0))"


text \<open>Python's truth value of a result: \<open>None\<close> and the empty dict are falsy.\<close>

fun truthy :: "pydict option \<Rightarrow> bool" where
  "truthy None = False"
| "truthy (Some d) = (d \<noteq> [])"

subsection \<open>The f-data snapshot\<close>










text \<open>
  The entries \<open>_load_f_data\<close> puts into \<open>self.f_data_cache\<close>. An entry under a key
  \<open>fundamental_<ticker>\<close> holds the indicators of the fundamentals file as that file gives
  them. An entry under a key \<open>financial_<ticker>\<close> holds the quarters of the OpenDART
  file; the model takes a quarter in the shape that file has: an integer year, an integer
  quarter and a dict of figures under the financial-information key, each of which may be
  missing.
\<close>

record fundamental_record =
  fd_ticker :: string
  fd_name :: pyval
  fd_market :: string
  fd_bps :: pyval
  fd_per :: pyval
  fd_eps :: pyval
  fd_pbr :: pyval
  fd_roe :: pyval

record quarter_data =
  q_year :: "int option"
  q_quarter :: "int option"
  q_financial_info :: "(string \<times> real) list option"

record financial_record =
  fn_ticker :: string
  fn_name :: pyval
  fn_market :: pyval
  fn_quarterly_data :: "(string \<times> quarter_data) list"
  fn_fundamental_indicators :: pyval

datatype f_data_entry = Fundamental fundamental_record | Financial financial_record



subsection \<open>The collector\<close>

text \<open>What a call of a method gives: a value, or an exception.\<close>

datatype 'a call = Returns 'a | Raises

text \<open>
  The state and the surroundings of a \<open>FinancialDataCollector\<close>: the f-data snapshot; the
  files \<open><code>_financial.json\<close> of the cache directory, by code; what the methods of the
  tiers that read other files and network services return for a code; the module flag
  \<open>DART_FSS_AVAILABLE\<close> and the API key; the clock. A time is a number of days; the ISO
  string under \<open>cached_at\<close> is modelled by the time it denotes.
\<close>

record collector =
  f_data_cache :: "(string \<times> f_data_entry) list"
  financial_cache :: "(string \<times> pydict) list"
  get_from_specified_json_files :: "string \<Rightarrow> pydict option call"
  get_from_financial_data_folder :: "string \<Rightarrow> pydict option call"
  DART_FSS_AVAILABLE :: bool
  get_dart_fss_financial_data :: "string \<Rightarrow> pydict option call"
  get_market_fundamental_data :: "string \<Rightarrow> pydict option call"
  api_key :: "string option"
  get_from_dart_api :: "string \<Rightarrow> pydict option call"
  now :: real
  now_year :: int
  now_month :: nat
  now_date :: string


subsection \<open>Tier 1: the f-data snapshot\<close>









subsection \<open>Tier 6: the default estimate\<close>

text \<open>The Korean strings of the default estimate, in UTF-8: the prefix "estimate_" of
  its \<open>data_source\<close>, the prefix "stock" of its company name, and its two notes.\<close>

definition estimate_prefix :: string where
  "estimate_prefix =
     [CHR 0xEC, CHR 0xB6, CHR 0x94, CHR 0xEC, CHR 0xA0, CHR 0x95, CHR 0xEA, CHR 0xB0, CHR 0x92,
      CHR 0x5F]"

definition stock_prefix :: string where
  "stock_prefix = [CHR 0xEC, CHR 0xA2, CHR 0x85, CHR 0xEB, CHR 0xAA, CHR 0xA9]"

definition note_estimate :: string where
  "note_estimate =
     [CHR 0xEC, CHR 0x8B, CHR 0xA4, CHR 0xEC, CHR 0xA0, CHR 0x9C, CHR 0x20, CHR 0xEB, CHR 0x8D,
      CHR 0xB0, CHR 0xEC, CHR 0x9D, CHR 0xB4, CHR 0xED, CHR 0x84, CHR 0xB0, CHR 0x20, CHR 0xEB,
      CHR 0xB6, CHR 0x80, CHR 0xEC, CHR 0xA1, CHR 0xB1, CHR 0xEC, CHR 0x9C, CHR 0xBC, CHR 0xEB,
      CHR 0xA1, CHR 0x9C, CHR 0x20, CHR 0xEC, CHR 0x97, CHR 0x85, CHR 0xEC, CHR 0xA2, CHR 0x85,
      CHR 0xEB, CHR 0xB3, CHR 0x84, CHR 0x20, CHR 0xED, CHR 0x8F, CHR 0x89, CHR 0xEA, CHR 0xB7,
      CHR 0xA0, CHR 0xEA, CHR 0xB0, CHR 0x92, CHR 0x20, CHR 0xEA, CHR 0xB8, CHR 0xB0, CHR 0xEB,
      CHR 0xB0, CHR 0x98, CHR 0x20, CHR 0xEC, CHR 0xB6, CHR 0x94, CHR 0xEC, CHR 0xA0, CHR 0x95]"

definition note_minimal :: string where
  "note_minimal =
     [CHR 0xEC, CHR 0xB5, CHR 0x9C, CHR 0xEC, CHR 0x86, CHR 0x8C, CHR 0x20, CHR 0xEA, CHR 0xB8,
      CHR 0xB0, CHR 0xEB, CHR 0xB3, CHR 0xB8, CHR 0xEA, CHR 0xB0, CHR 0x92]"

record sector_default =
  d_roe :: real
  d_operating_margin :: real
  d_debt_ratio :: real
  d_sales_yoy :: real
  d_op_income_yoy :: real
  d_per :: real
  d_pbr :: real
  d_dividend_yield :: real

definition sector_defaults :: "string \<Rightarrow> sector_default" where
  "sector_defaults sector =
     (if sector = ''tech'' then
        \<lparr>d_roe = 8, d_operating_margin = 12, d_debt_ratio = 40, d_sales_yoy = 15,
         d_op_income_yoy = 12, d_per = 25, d_pbr = 3, d_dividend_yield = 1\<rparr>
      else if sector = ''manufacturing'' then
        \<lparr>d_roe = 6, d_operating_margin = 8, d_debt_ratio = 60, d_sales_yoy = 8,
         d_op_income_yoy = 6, d_per = 15, d_pbr = 15 / 10, d_dividend_yield = 25 / 10\<rparr>
      else if sector = ''service'' then
        \<lparr>d_roe = 7, d_operating_margin = 10, d_debt_ratio = 50, d_sales_yoy = 10,
         d_op_income_yoy = 8, d_per = 18, d_pbr = 2, d_dividend_yield = 2\<rparr>
      else
        \<lparr>d_roe = 5, d_operating_margin = 8, d_debt_ratio = 50, d_sales_yoy = 8,
         d_op_income_yoy = 5, d_per = 20, d_pbr = 2, d_dividend_yield = 15 / 10\<rparr>)"

text \<open>\<open>estimate_sector\<close>; \<open>None\<close> when \<open>int(code)\<close> raises.\<close>

definition estimate_sector :: "string \<Rightarrow> string option" where
  "estimate_sector code =
     (case int_of_str code of
        None \<Rightarrow> None
      | Some code_int \<Rightarrow>
          Some (if code_int \<ge> 140000 \<and> code_int \<le> 150000 then ''tech''
                else if code_int \<ge> 200000 \<and> code_int \<le> 300000 then ''tech''
                else if code_int \<ge> 5000 \<and> code_int \<le> 10000 then ''manufacturing''
                else if code_int \<ge> 30000 \<and> code_int \<le> 40000 then ''tech''
                else if code_int \<ge> 50000 \<and> code_int \<le> 70000 then ''manufacturing''
                else ''default''))"

text \<open>
  \<open>_generate_default_financial_data\<close>: the estimate of the sector, or the minimal dict of
  its \<open>except\<close> branch. The figures are computed in double precision, in the order in
  which Python evaluates them, and truncated by \<open>int\<close> where the source does;
  \<open>0.7\<close> and \<open>1.2\<close> are the doubles nearest to these decimals.
\<close>

definition generate_default_financial_data :: "collector \<Rightarrow> string \<Rightarrow> pydict" where
  "generate_default_financial_data self code =
     (let formatted_code = zfill 6 code
      in case estimate_sector formatted_code of
           None \<Rightarrow>
             [(''roe'', num 5),
              (''operating_margin'', num 8),
              (''debt_ratio'', num 50),
              (''sales_yoy'', num 5),
              (''op_income_yoy'', num 5),
              (''per'', num 20),
              (''pbr'', num 2),
              (''dividend_yield'', num 1),
              (''source'', Str ''minimal_default''),
              (''note'', Str note_minimal)]
         | Some estimated_sector \<Rightarrow>
             (let defaults = sector_defaults estimated_sector;
                  sales = 100000000000;
                  c07 = nearest_double (7 / 10);
                  c12 = nearest_double (12 / 10);
                  income = ddiv (dmul (dmul sales (d_operating_margin defaults)) c07) 100;
                  equity = dmul (ddiv sales (d_roe defaults)) 100
              in [(''roe'', num (d_roe defaults)),
                  (''operating_margin'', num (d_operating_margin defaults)),
                  (''net_margin'', num (dmul (d_operating_margin defaults) c07)),
                  (''debt_ratio'', num (d_debt_ratio defaults)),
                  (''sales_yoy'', num (d_sales_yoy defaults)),
                  (''op_income_yoy'', num (d_op_income_yoy defaults)),
                  (''net_income_yoy'', num (dmul (d_op_income_yoy defaults) c12)),
                  (''sales_qoq'', num (ddiv (d_sales_yoy defaults) 4)),
                  (''op_income_qoq'', num (ddiv (d_op_income_yoy defaults) 4)),
                  (''net_income_qoq'', num (ddiv (dmul (d_op_income_yoy defaults) c12) 4)),
                  (''per'', num (d_per defaults)),
                  (''pbr'', num (d_pbr defaults)),
                  (''dividend_yield'', num (d_dividend_yield defaults)),
                  (''sales'', num sales),
                  (''operating_income'',
                     num (of_int (py_int (ddiv (dmul sales (d_operating_margin defaults)) 100)))),
                  (''net_income'', num (of_int (py_int income))),
                  (''equity'', num (of_int (py_int equity))),
                  (''debt'',
                     num (of_int (py_int (ddiv (dmul equity (d_debt_ratio defaults)) 100)))),
                  (''assets'',
                     num (of_int (py_int (dmul equity
                                            (dadd 1 (ddiv (d_debt_ratio defaults) 100)))))),
                  (''eps'', num (of_int (py_int (ddiv income 10000000)))),
                  (''bps'', num (of_int (py_int (ddiv equity 10000000)))),
                  (''dps'',
                     num (of_int (py_int (ddiv (dmul (ddiv income 10000000)
                                                  (d_dividend_yield defaults)) 100)))),
                  (''year'', num (of_int (now_year self))),
                  (''quarter'', Str (''Q'' @ str_of_nat ((now_month self - 1) div 3 + 1))),
                  (''company_name'', Str (stock_prefix @ code)),
                  (''data_source'', Str (estimate_prefix @ estimated_sector)),
                  (''source'', Str (''estimated_'' @ estimated_sector)),
                  (''last_update'', Str (now_date self)),
                  (''note'', Str note_estimate)]))"

subsection \<open>The cache of resolved records\<close>



subsection \<open>The resolver\<close>





subsection \<open>The chain of tiers, as the specification words it\<close>



text \<open>The values of \<open>source\<close> and \<open>data_source\<close> that mark a default estimate: the tag of
  the minimal dict, and the two tags of the estimate of each sector.\<close>

definition default_estimate_tags :: "pyval list" where
  "default_estimate_tags =
     Str ''minimal_default''
     # map (\<lambda>sector. Str (''estimated_'' @ sector))
         [''tech'', ''manufacturing'', ''service'', ''default'']
     @ map (\<lambda>sector. Str (estimate_prefix @ sector))
         [''tech'', ''manufacturing'', ''service'', ''default'']"


section \<open>Screener: a screening run\<close>

subsection \<open>The universe\<close>

text \<open>A row of the stock list: the columns \<open>Code\<close>, \<open>Name\<close>, \<open>Market\<close> and \<open>Sector\<close>.\<close>

record stock =
  Code :: pyval
  Name :: string
  Market :: string
  Sector :: string

text \<open>
  \<open>str.strip()\<close>, \<open>str.replace(c, '')\<close> and \<open>str.isdigit()\<close> on ASCII strings (the
  whitespace and the digits Unicode adds are not modelled).
\<close>

definition is_space :: "char \<Rightarrow> bool" where
  "is_space c =
     (let n = (of_char c :: nat) in n = 32 \<or> (9 \<le> n \<and> n \<le> 13) \<or> (28 \<le> n \<and> n \<le> 31))"

definition strip :: "string \<Rightarrow> string" where
  "strip s = rev (dropWhile is_space (rev (dropWhile is_space s)))"

definition is_digit :: "char \<Rightarrow> bool" where
  "is_digit c = (digit_value c \<noteq> None)"

definition isdigit :: "string \<Rightarrow> bool" where
  "isdigit s = (s \<noteq> [] \<and> list_all is_digit s)"

text \<open>
  The check of one row in \<open>run_screening\<close>: a code that is a non-empty string and, stripped
  and without dots and hyphens, all digits is kept, padded to six digits.
\<close>

definition normalize_code :: "pyval \<Rightarrow> string option" where
  "normalize_code code =
     (case code of
        Str s \<Rightarrow>
          if s \<noteq> [] then
            (let clean_code = strip s;
                 digits = filter (\<lambda>c. c \<noteq> CHR ''-'') (filter (\<lambda>c. c \<noteq> CHR ''.'') clean_code)
             in if isdigit digits then Some (zfill 6 digits) else None)
          else None
      | _ \<Rightarrow> None)"

fun valid_stocks :: "stock list \<Rightarrow> stock list" where
  "valid_stocks [] = []"
| "valid_stocks (row # rest) =
     (case normalize_code (Code row) of
        Some formatted_code \<Rightarrow> row\<lparr>Code := Str formatted_code\<rparr> # valid_stocks rest
      | None \<Rightarrow> valid_stocks rest)"

text \<open>The built-in list used when fewer than ten rows are valid; the names and sectors
  are Korean, in UTF-8.\<close>

definition sector_electronics :: string where
  "sector_electronics =
     [CHR 0xEC, CHR 0xA0, CHR 0x84, CHR 0xEA, CHR 0xB8, CHR 0xB0, CHR 0xEC,
            CHR 0xA0, CHR 0x84, CHR 0xEC, CHR 0x9E, CHR 0x90]"

definition sector_services :: string where
  "sector_services =
     [CHR 0xEC, CHR 0x84, CHR 0x9C, CHR 0xEB, CHR 0xB9, CHR 0x84, CHR 0xEC,
            CHR 0x8A, CHR 0xA4, CHR 0xEC, CHR 0x97, CHR 0x85]"

definition sector_transport :: string where
  "sector_transport =
     [CHR 0xEC, CHR 0x9A, CHR 0xB4, CHR 0xEC, CHR 0x88, CHR 0x98, CHR 0xEC,
            CHR 0x9E, CHR 0xA5, CHR 0xEB, CHR 0xB9, CHR 0x84]"

definition sector_medical :: string where
  "sector_medical =
     [CHR 0xEC, CHR 0x9D, CHR 0x98, CHR 0xEB, CHR 0xA3, CHR 0x8C, CHR 0xEC,
            CHR 0xA0, CHR 0x95, CHR 0xEB, CHR 0xB0, CHR 0x80]"

definition default_stocks :: "stock list" where
  "default_stocks =
     [\<lparr>Code = Str ''005930'',
       Name = [CHR 0xEC, CHR 0x82, CHR 0xBC, CHR 0xEC, CHR 0x84, CHR 0xB1, CHR 0xEC,
            CHR 0xA0, CHR 0x84, CHR 0xEC, CHR 0x9E, CHR 0x90],
       Market = ''KOSPI'', Sector = sector_electronics\<rparr>,
      \<lparr>Code = Str ''000660'',
       Name = [CHR ''S'', CHR ''K'', CHR 0xED, CHR 0x95, CHR 0x98, CHR 0xEC, CHR 0x9D,
            CHR 0xB4, CHR 0xEB, CHR 0x8B, CHR 0x89, CHR 0xEC, CHR 0x8A,
            CHR 0xA4],
       Market = ''KOSPI'', Sector = sector_electronics\<rparr>,
      \<lparr>Code = Str ''035420'',
       Name = ''NAVER'',
       Market = ''KOSPI'', Sector = sector_services\<rparr>,
      \<lparr>Code = Str ''035720'',
       Name = [CHR 0xEC, CHR 0xB9, CHR 0xB4, CHR 0xEC, CHR 0xB9, CHR 0xB4, CHR 0xEC,
            CHR 0x98, CHR 0xA4],
       Market = ''KOSPI'', Sector = sector_services\<rparr>,
      \<lparr>Code = Str ''005380'',
       Name = [CHR 0xED, CHR 0x98, CHR 0x84, CHR 0xEB, CHR 0x8C, CHR 0x80, CHR 0xEC,
            CHR 0xB0, CHR 0xA8],
       Market = ''KOSPI'', Sector = sector_transport\<rparr>,
      \<lparr>Code = Str ''247540'',
       Name = [CHR 0xEC, CHR 0x97, CHR 0x90, CHR 0xEC, CHR 0xBD, CHR 0x94, CHR 0xED,
            CHR 0x94, CHR 0x84, CHR 0xEB, CHR 0xA1, CHR 0x9C, CHR 0xEB,
            CHR 0xB9, CHR 0x84, CHR 0xEC, CHR 0x97, CHR 0xA0],
       Market = ''KOSDAQ'', Sector = sector_electronics\<rparr>,
      \<lparr>Code = Str ''086520'',
       Name = [CHR 0xEC, CHR 0x97, CHR 0x90, CHR 0xEC, CHR 0xBD, CHR 0x94, CHR 0xED,
            CHR 0x94, CHR 0x84, CHR 0xEB, CHR 0xA1, CHR 0x9C],
       Market = ''KOSDAQ'', Sector = sector_electronics\<rparr>,
      \<lparr>Code = Str ''091990'',
       Name = [CHR 0xEC, CHR 0x85, CHR 0x80, CHR 0xED, CHR 0x8A, CHR 0xB8, CHR 0xEB,
            CHR 0xA6, CHR 0xAC, CHR 0xEC, CHR 0x98, CHR 0xA8, CHR 0xED,
            CHR 0x97, CHR 0xAC, CHR 0xEC, CHR 0x8A, CHR 0xA4, CHR 0xEC,
            CHR 0xBC, CHR 0x80, CHR 0xEC, CHR 0x96, CHR 0xB4],
       Market = ''KOSDAQ'', Sector = sector_medical\<rparr>,
      \<lparr>Code = Str ''022100'',
       Name = [CHR 0xED, CHR 0x8F, CHR 0xAC, CHR 0xEC, CHR 0x8A, CHR 0xA4, CHR 0xEC,
            CHR 0xBD, CHR 0x94, CHR '' '', CHR ''D'', CHR ''X''],
       Market = ''KOSDAQ'', Sector = sector_services\<rparr>,
      \<lparr>Code = Str ''196170'',
       Name = [CHR 0xEC, CHR 0x95, CHR 0x8C, CHR 0xED, CHR 0x85, CHR 0x8C, CHR 0xEC,
            CHR 0x98, CHR 0xA4, CHR 0xEC, CHR 0xA0, CHR 0xA0],
       Market = ''KOSDAQ'', Sector = sector_medical\<rparr>]"
subsection \<open>One task\<close>

text \<open>
  What the pipeline of \<open>process_single_stock\<close> (price data, indicators, patterns, scores,
  result dict) ends in for a stock: a result dict, no data, or an exception raised by
  one of its steps.
\<close>

datatype analysis = Scored pydict | No_data | Exception_inside

text \<open>
  \<open>process_single_stock\<close>: its whole body stands in \<open>try ... except Exception: return None\<close>,
  so it returns the result dict or \<open>None\<close> and raises nothing.
\<close>

definition process_single_stock :: "(stock \<Rightarrow> analysis) \<Rightarrow> stock \<Rightarrow> pydict option" where
  "process_single_stock pipeline row =
     (case pipeline row of
        Scored result \<Rightarrow> Some result
      | No_data \<Rightarrow> None
      | Exception_inside \<Rightarrow> None)"

subsection \<open>Collecting the results\<close>

text \<open>
  What \<open>future.result(timeout=30)\<close> gives for a completed future: the value the task
  returned, or the exception the task raised.
\<close>

datatype outcome = Returned "pydict option" | Raised

text \<open>The lines the loop prints: a progress line (processed, total, successes,
  failures; the times it also shows are left out) and the line of the early stop
  (failures, processed).\<close>

datatype report = Progress nat nat nat nat | Stopped nat nat

text \<open>The counters and the result list of \<open>run_screening\<close>, and what it has printed.\<close>

record run_state =
  all_results :: "pydict list"
  processed_count :: nat
  success_count :: nat
  error_count :: nat
  printed :: "report list"

definition initial_run_state :: run_state where
  "initial_run_state =
     \<lparr>all_results = [], processed_count = 0, success_count = 0, error_count = 0,
      printed = []\<rparr>"

text \<open>\<open>update_interval\<close>, by the size of the universe.\<close>

definition update_interval :: "nat \<Rightarrow> nat" where
  "update_interval total_stocks =
     (if total_stocks > 2000 then 200 else if total_stocks > 500 then 100 else 50)"

text \<open>The \<open>try\<close> block of the loop for a returned result: the counters, then the
  progress line.\<close>

definition count_result :: "nat \<Rightarrow> pydict option \<Rightarrow> run_state \<Rightarrow> run_state" where
  "count_result total_stocks result s =
     (let s = (case result of
                 Some d \<Rightarrow>
                   if d \<noteq> []
                   then s\<lparr>all_results := all_results s @ [d],
                          success_count := success_count s + 1\<rparr>
                   else s\<lparr>error_count := error_count s + 1\<rparr>
               | None \<Rightarrow> s\<lparr>error_count := error_count s + 1\<rparr>);
          s = s\<lparr>processed_count := processed_count s + 1\<rparr>
      in if processed_count s mod update_interval total_stocks = 0
            \<or> processed_count s = total_stocks
         then s\<lparr>printed := printed s
                  @ [Progress (processed_count s) total_stocks (success_count s)
                       (error_count s)]\<rparr>
         else s)"

text \<open>
  The loop \<open>for future in as_completed(futures)\<close>, over the outcomes of the futures in
  the order in which they complete. The result is the state on leaving the loop and
  whether it was left by \<open>break\<close>. The test \<open>error_count > total_stocks * 0.5\<close> stands in
  the \<open>except\<close> branch only. \<open>print\<close> is taken not to raise.
\<close>

fun collect :: "nat \<Rightarrow> outcome list \<Rightarrow> run_state \<Rightarrow> run_state \<times> bool" where
  "collect total_stocks [] s = (s, False)"
| "collect total_stocks (Returned result # futures) s =
     collect total_stocks futures (count_result total_stocks result s)"
| "collect total_stocks (Raised # futures) s =
     (let s = s\<lparr>error_count := error_count s + 1\<rparr>;
          s = s\<lparr>processed_count := processed_count s + 1\<rparr>
      in if real (error_count s) > real total_stocks * (5 / 10)
         then (s\<lparr>printed := printed s @ [Stopped (error_count s) (processed_count s)]\<rparr>, True)
         else collect total_stocks futures s)"

subsection \<open>The run\<close>

text \<open>
  What a run leaves behind: the state after the loop, whether the loop was left by
  \<open>break\<close>, and the number of tasks run. The loop stands inside
  \<open>with ThreadPoolExecutor(...) as executor\<close>, and leaving that block waits for every
  submitted task, so every task is run whether or not the collection stops early.
\<close>

record run =
  final :: run_state
  stopped :: bool
  tasks_run :: nat

text \<open>
  \<open>run_screening\<close> from the stock list on, up to the end of the collection loop; the
  filtering, sorting and saving of the results after it are not modelled. \<open>pipeline\<close>
  gives what the analysis of a stock ends in, \<open>as_completed\<close> the order in which the
  tasks complete. \<open>None\<close> stands for the early return with an empty frame.
\<close>

definition run_screening ::
  "(stock \<Rightarrow> analysis) \<Rightarrow> (stock list \<Rightarrow> stock list) \<Rightarrow> string list option \<Rightarrow> stock list
     \<Rightarrow> run option" where
  "run_screening pipeline as_completed markets all_stocks =
     (let markets = (case markets of None \<Rightarrow> [''KOSPI'', ''KOSDAQ''] | Some m \<Rightarrow> m)
      in if all_stocks = [] then None
         else
           (let all_stocks = (if markets \<noteq> []
                              then filter (\<lambda>row. Market row \<in> set markets) all_stocks
                              else all_stocks)
            in if all_stocks = [] then None
               else
                 (let valid = valid_stocks all_stocks;
                      all_stocks =
                        (if valid \<noteq> [] \<and> length valid \<ge> 10 then valid
                         else if markets \<noteq> []
                              then filter (\<lambda>s. Market s \<in> set markets) default_stocks
                              else default_stocks);
                      total_stocks = length all_stocks;
                      futures = map (\<lambda>row. Returned (process_single_stock pipeline row))
                                  (as_completed all_stocks);
                      (s, break) = collect total_stocks futures initial_run_state
                  in Some \<lparr>final = s, stopped = break, tasks_run = total_stocks\<rparr>)))"

section \<open>Concrete inputs\<close>

text \<open>The data-source tag "trading value" (\<open>get_investor_data\<close>, method 2), in UTF-8.\<close>

definition src_trading_value :: string where
  "src_trading_value =
     [CHR 0xEA, CHR 0xB1, CHR 0xB0, CHR 0xEB, CHR 0x9E, CHR 0x98, CHR 0xEB, CHR 0x8C, CHR 0x80,
      CHR 0xEA, CHR 0xB8, CHR 0x88]"

text \<open>An investor-flow dict with collected data, no net buying and a short-selling ratio
  of 20 percent.\<close>

definition investor_heavy_short :: investor_data where
  "investor_heavy_short =
     \<lparr>data_source = Some src_trading_value,
      foreign_net_buy = Some (Fin 0), foreign_ratio = Some (Fin 0),
      institution_net_buy = Some (Fin 0), institution_ratio = Some (Fin 0),
      net_buy_days = Some (Fin 0), foreign_buy_days = Some (Fin 0),
      institution_buy_days = Some (Fin 0),
      short_selling_ratio = Some (Fin 20), short_selling_volume = Some (Fin 5000),
      short_selling_balance = Some (Fin 0), short_selling_days = Some (Fin 12)\<rparr>"

text \<open>The same with no short-selling keys at all.\<close>

definition investor_no_activity :: investor_data where
  "investor_no_activity =
     \<lparr>data_source = Some src_trading_value,
      foreign_net_buy = Some (Fin 0), foreign_ratio = Some (Fin 0),
      institution_net_buy = Some (Fin 0), institution_ratio = Some (Fin 0),
      net_buy_days = Some (Fin 0), foreign_buy_days = Some (Fin 0),
      institution_buy_days = Some (Fin 0),
      short_selling_ratio = None, short_selling_volume = None,
      short_selling_balance = None, short_selling_days = None\<rparr>"

text \<open>A string parser that accepts nothing, for evaluating \<open>safe_number\<close> on records
  without numeric strings.\<close>

definition no_float :: "string \<Rightarrow> fl option" where
  "no_float s = None"

text \<open>A non-empty record with none of the keys the fundamental score reads.\<close>

definition record_without_figures :: pydict where
  "record_without_figures = [(''company_name'', Str ''ACME''), (''year'', num 2025)]"

text \<open>The bar of the last-resort price series of \<open>get_stock_price\<close>: close 10000,
  high 10200, low 9800, volume 100000.\<close>

definition default_bar :: bar where
  "default_bar = \<lparr>Open = 10000, High = 10200, Low = 9800, Close = 10000, Volume = 100000\<rparr>"

text \<open>Fifty bars: forty-nine default bars, then a bar that closes exactly 3 percent
  higher on four times the volume.\<close>

definition pivot_bar :: bar where
  "pivot_bar = \<lparr>Open = 10000, High = 10300, Low = 10000, Close = 10300, Volume = 400000\<rparr>"

definition pivot_series :: "bar list" where
  "pivot_series = replicate 49 default_bar @ [pivot_bar]"

definition pivot_frame :: frame where
  "pivot_frame = calculate_indicators pivot_series"

text \<open>The last-resort price series over 130 periods: constant close 10000.\<close>

definition flat_series :: "bar list" where
  "flat_series = replicate 130 default_bar"

text \<open>A series of 66 bars whose first close is 0: the 65-period return of the latest
  row divides by that zero.\<close>

definition zero_bar :: bar where
  "zero_bar = \<lparr>Open = 0, High = 0, Low = 0, Close = 0, Volume = 0\<rparr>"

definition zero_start_series :: "bar list" where
  "zero_start_series = zero_bar # replicate 65 default_bar"

definition zero_start_frame :: frame where
  "zero_start_frame = calculate_indicators zero_start_series"

text \<open>
  A universe of 100 stocks with the codes 000001 to 000100, the first 60 listed on
  KOSDAQ and the other 40 on KOSPI, on a day on which the analysis of every KOSDAQ stock
  ends in an exception and every KOSPI stock is scored; the tasks complete in the order
  of their submission.
\<close>

definition stock_result :: pydict where
  "stock_result = [(''code'', Str ''000061''), (''total_score'', num 50)]"

definition listed :: "string \<Rightarrow> nat \<Rightarrow> stock" where
  "listed market n =
     \<lparr>Code = Str (zfill 6 (str_of_nat n)), Name = ''Stock'', Market = market,
      Sector = ''Other''\<rparr>"

definition hundred_stocks :: "stock list" where
  "hundred_stocks = map (listed ''KOSDAQ'') [1..<61] @ map (listed ''KOSPI'') [61..<101]"

definition kosdaq_down :: "stock \<Rightarrow> analysis" where
  "kosdaq_down row = (if Market row = ''KOSDAQ'' then Exception_inside else Scored stock_result)"

definition in_submission_order :: "stock list \<Rightarrow> stock list" where
  "in_submission_order futures = futures"

definition kosdaq_down_run :: "run option" where
  "kosdaq_down_run = run_screening kosdaq_down in_submission_order None hundred_stocks"








section \<open>Properties\<close>

subsection \<open>Rounding\<close>

lemma py_round_cases:
  obtains "py_round x nd = of_int \<lfloor>x * 10 ^ nd\<rfloor> / 10 ^ nd"
  | "py_round x nd = of_int (\<lfloor>x * 10 ^ nd\<rfloor> + 1) / 10 ^ nd"
    "1 / 2 \<le> x * 10 ^ nd - of_int \<lfloor>x * 10 ^ nd\<rfloor>"
proof -
  define d where "d = x * 10 ^ nd - of_int \<lfloor>x * 10 ^ nd\<rfloor>"
  have eq: "py_round x nd = (if d < 1 / 2 then of_int \<lfloor>x * 10 ^ nd\<rfloor>
          else if 1 / 2 < d then of_int (\<lfloor>x * 10 ^ nd\<rfloor> + 1)
          else if even \<lfloor>x * 10 ^ nd\<rfloor> then of_int \<lfloor>x * 10 ^ nd\<rfloor>
          else of_int (\<lfloor>x * 10 ^ nd\<rfloor> + 1)) / 10 ^ nd"
    unfolding py_round_def Let_def d_def ..
  show thesis
  proof (cases "d < 1 / 2 \<or> (\<not> 1 / 2 < d \<and> even \<lfloor>x * 10 ^ nd\<rfloor>)")
    case True
    then have "py_round x nd = of_int \<lfloor>x * 10 ^ nd\<rfloor> / 10 ^ nd"
      unfolding eq by (auto simp only: if_True if_False split: if_splits)
    then show thesis by (rule that(1))
  next
    case False
    then have "py_round x nd = of_int (\<lfloor>x * 10 ^ nd\<rfloor> + 1) / 10 ^ nd"
      unfolding eq by (auto simp only: if_True if_False split: if_splits)
    moreover have "1 / 2 \<le> d" using False by linarith
    ultimately show thesis unfolding d_def by (rule that(2))
  qed
qed

lemma py_round_nonneg:
  assumes "0 \<le> x"
  shows "0 \<le> py_round x nd"
proof -
  have "0 \<le> x * 10 ^ nd" using assms by simp
  then have f: "0 \<le> \<lfloor>x * 10 ^ nd\<rfloor>" by simp
  show ?thesis
  proof (cases x nd rule: py_round_cases)
    case 1
    then show ?thesis using f by simp
  next
    case 2
    then show ?thesis using f by simp
  qed
qed

lemma py_round_le_int:
  assumes "x \<le> of_int k"
  shows "py_round x nd \<le> of_int k"
proof -
  define K where "K = k * 10 ^ nd"
  have K: "(of_int K :: real) = of_int k * 10 ^ nd" by (simp add: K_def)
  have sK: "x * 10 ^ nd \<le> of_int K"
    unfolding K using assms by (simp add: mult_right_mono)
  then have fK: "\<lfloor>x * 10 ^ nd\<rfloor> \<le> K" by (simp add: floor_le_iff)
  have kK: "(of_int k :: real) = of_int K / 10 ^ nd" by (simp add: K)
  show ?thesis
  proof (cases x nd rule: py_round_cases)
    case 1
    then show ?thesis unfolding kK using fK by (simp add: divide_right_mono)
  next
    case 2
    have "of_int \<lfloor>x * 10 ^ nd\<rfloor> < x * 10 ^ nd" using 2(2) by linarith
    then have "of_int \<lfloor>x * 10 ^ nd\<rfloor> < (of_int K :: real)" using sK by linarith
    then have "\<lfloor>x * 10 ^ nd\<rfloor> + 1 \<le> K" by linarith
    then have "(of_int (\<lfloor>x * 10 ^ nd\<rfloor> + 1) :: real) \<le> of_int K" by (simp only: of_int_le_iff)
    then show ?thesis unfolding kK 2(1) by (simp add: divide_right_mono)
  qed
qed

lemma py_round_le_numeral: "x \<le> numeral n \<Longrightarrow> py_round x nd \<le> numeral n"
  using py_round_le_int [of x "numeral n" nd] by simp

lemma py_round_of_int: "py_round (of_int k) nd = of_int k"
proof -
  have e: "(of_int k :: real) * 10 ^ nd = of_int (k * 10 ^ nd)" by simp
  show ?thesis
    unfolding py_round_def Let_def e floor_of_int by simp
qed

lemma py_round_numeral: "py_round (numeral n) nd = numeral n"
  using py_round_of_int [of "numeral n" nd] by simp

lemma py_round_zero: "py_round 0 nd = 0"
  using py_round_of_int [of 0 nd] by simp

lemma py_round_ge_int:
  assumes "of_int k \<le> x"
  shows "of_int k \<le> py_round x nd"
proof -
  define K where "K = k * 10 ^ nd"
  have K: "(of_int K :: real) = of_int k * 10 ^ nd" by (simp add: K_def)
  have sK: "of_int K \<le> x * 10 ^ nd"
    unfolding K using assms by (simp add: mult_right_mono)
  then have fK: "K \<le> \<lfloor>x * 10 ^ nd\<rfloor>" by (simp add: le_floor_iff)
  have kK: "(of_int k :: real) = of_int K / 10 ^ nd" by (simp add: K)
  show ?thesis
  proof (cases x nd rule: py_round_cases)
    case 1
    then show ?thesis unfolding kK using fK by (simp add: divide_right_mono)
  next
    case 2
    have "(of_int K :: real) \<le> of_int (\<lfloor>x * 10 ^ nd\<rfloor> + 1)" using fK by simp
    then show ?thesis unfolding kK 2(1) by (simp add: divide_right_mono)
  qed
qed

lemma py_round_ge_numeral: "numeral n \<le> x \<Longrightarrow> numeral n \<le> py_round x nd"
  using py_round_ge_int [of "numeral n" x nd] by simp

subsection \<open>Rounding to the nearest double\<close>







lemma exponent_from_range:
  "e - int n \<le> exponent_from n e a \<and> exponent_from n e a \<le> e"
proof (induction n arbitrary: e)
  case 0
  then show ?case by simp
next
  case (Suc n)
  from Suc [of "e - 1"] show ?case by auto
qed


lemma exponent_range: "- 1022 \<le> exponent x" "exponent x \<le> 1023"
  using exponent_from_range [of 1023 2045 "\<bar>x\<bar>"] by (simp_all add: exponent_def)














subsection \<open>C1: the composite score\<close>











subsection \<open>Investor-flow score\<close>

lemma foreign_points_bounds: "0 \<le> foreign_points a b \<and> foreign_points a b \<le> 4"
  by (simp add: foreign_points_def)

lemma institution_points_bounds: "0 \<le> institution_points a b \<and> institution_points a b \<le> 4"
  by (simp add: institution_points_def)

lemma consecutive_score_bounds: "0 \<le> consecutive_score a b c \<and> consecutive_score a b c \<le> 2"
  by (simp add: consecutive_score_def Let_def)

lemma short_points_bounds: "0 \<le> short_points a \<and> short_points a \<le> 2"
  by (simp add: short_points_def)

lemma investor_source_not_default:
  "data_source d \<noteq> Some ''default'' \<Longrightarrow>
   (case data_source d of Some s \<Rightarrow> s | None \<Rightarrow> ''unknown'') \<noteq> ''default''"
  by (cases "data_source d") simp_all

lemma investor_score_eq:
  assumes "data_source d \<noteq> Some ''default''"
  shows "fst (calculate_investor_score (Some d) m) =
    min (py_round (foreign_points (get0 (foreign_net_buy d)) (get0 (foreign_ratio d))
        + institution_points (get0 (institution_net_buy d)) (get0 (institution_ratio d))
        + consecutive_score (get0 (net_buy_days d)) (get0 (foreign_buy_days d))
            (get0 (institution_buy_days d))
        + short_points (get0 (short_selling_ratio d))) 1) m"
  using investor_source_not_default [OF assms]
  by (simp add: calculate_investor_score_def Let_def)

lemma investor_score_bounds:
  "0 \<le> fst (calculate_investor_score idata 12) \<and> fst (calculate_investor_score idata 12) \<le> 12"
proof (cases idata)
  case None
  then show ?thesis by (simp add: calculate_investor_score_def)
next
  case (Some d)
  show ?thesis
  proof (cases "data_source d = Some ''default''")
    case True
    then show ?thesis using Some by (simp add: calculate_investor_score_def)
  next
    case False
    have "0 \<le> foreign_points (get0 (foreign_net_buy d)) (get0 (foreign_ratio d))
        + institution_points (get0 (institution_net_buy d)) (get0 (institution_ratio d))
        + consecutive_score (get0 (net_buy_days d)) (get0 (foreign_buy_days d))
            (get0 (institution_buy_days d))
        + short_points (get0 (short_selling_ratio d))" (is "0 \<le> ?s")
      using foreign_points_bounds institution_points_bounds consecutive_score_bounds
        short_points_bounds
      by (simp add: add_nonneg_nonneg)
    then have "0 \<le> py_round ?s 1" by (rule py_round_nonneg)
    then show ?thesis unfolding Some investor_score_eq [OF False] by simp
  qed
qed

subsection \<open>C10: the floor of the investor-flow score\<close>

text \<open>
  C10 as stated: every investor-flow dict whose \<open>data_source\<close> is present and not
  \<open>default\<close> scores at least 2.0. It fails on a dict with a short-selling ratio above 10
  percent and no net buying, which scores 0.
\<close>

lemma heavy_src: "data_source investor_heavy_short \<noteq> Some ''default''"
  by (simp add: investor_heavy_short_def src_trading_value_def)

theorem investor_score_floor_counterexample:
  "data_source investor_heavy_short \<noteq> None
   \<and> data_source investor_heavy_short \<noteq> Some ''default''
   \<and> fst (calculate_investor_score (Some investor_heavy_short) 12) = 0
   \<and> \<not> 2 \<le> fst (calculate_investor_score (Some investor_heavy_short) 12)"
proof -
  have e: "fst (calculate_investor_score (Some investor_heavy_short) 12) = 0"
    unfolding investor_score_eq [OF heavy_src]
    by (simp add: investor_heavy_short_def get0_def foreign_points_def institution_points_def
        consecutive_score_def short_points_def py_round_zero)
  show ?thesis using heavy_src e by (simp add: investor_heavy_short_def)
qed

text \<open>
  C10, amended. For every investor-flow dict whose \<open>data_source\<close> is not \<open>default\<close> and
  whose \<open>short_selling_ratio\<close> is at most 1 (the key absent counts as 0), the score is at
  least 2.0; and when moreover there is no foreign or institutional net buying and no
  run of buying days, the score is exactly 2.0.
\<close>

theorem investor_score_floor:
  assumes "data_source d \<noteq> Some ''default''"
    and "fl_le (get0 (short_selling_ratio d)) 1"
  shows "2 \<le> fst (calculate_investor_score (Some d) 12)
    \<and> (\<not> fl_gt (get0 (foreign_net_buy d)) 0 \<and> \<not> fl_gt (get0 (institution_net_buy d)) 0
        \<and> \<not> fl_ge (get0 (net_buy_days d)) 3
        \<and> \<not> (fl_ge (get0 (foreign_buy_days d)) 3 \<and> fl_ge (get0 (institution_buy_days d)) 3)
       \<longrightarrow> fst (calculate_investor_score (Some d) 12) = 2)"
proof -
  let ?f = "foreign_points (get0 (foreign_net_buy d)) (get0 (foreign_ratio d))"
  let ?i = "institution_points (get0 (institution_net_buy d)) (get0 (institution_ratio d))"
  let ?c = "consecutive_score (get0 (net_buy_days d)) (get0 (foreign_buy_days d))
            (get0 (institution_buy_days d))"
  let ?s = "short_points (get0 (short_selling_ratio d))"
  have s: "?s = 2" using assms(2) by (simp add: short_points_def)
  have "2 \<le> ?f + ?i + ?c + ?s"
    using foreign_points_bounds [of "get0 (foreign_net_buy d)" "get0 (foreign_ratio d)"]
      institution_points_bounds [of "get0 (institution_net_buy d)" "get0 (institution_ratio d)"]
      consecutive_score_bounds [of "get0 (net_buy_days d)" "get0 (foreign_buy_days d)"
        "get0 (institution_buy_days d)"] s
    by linarith
  then have "2 \<le> py_round (?f + ?i + ?c + ?s) 1" by (rule py_round_ge_numeral)
  then have ge: "2 \<le> fst (calculate_investor_score (Some d) 12)"
    unfolding investor_score_eq [OF assms(1)] by simp
  have eq: "fst (calculate_investor_score (Some d) 12) = 2"
    if "\<not> fl_gt (get0 (foreign_net_buy d)) 0" "\<not> fl_gt (get0 (institution_net_buy d)) 0"
      "\<not> fl_ge (get0 (net_buy_days d)) 3"
      "\<not> (fl_ge (get0 (foreign_buy_days d)) 3 \<and> fl_ge (get0 (institution_buy_days d)) 3)"
  proof -
    have "?f = 0" using that(1) by (simp add: foreign_points_def)
    moreover have "?i = 0" using that(2) by (simp add: institution_points_def)
    moreover have "?c = 0"
    proof -
      have n: "\<not> fl_ge (get0 (net_buy_days d)) 15" "\<not> fl_ge (get0 (net_buy_days d)) 10"
        "\<not> fl_ge (get0 (net_buy_days d)) 5"
        using that(3) by (cases "get0 (net_buy_days d)"; simp)+
      show ?thesis using n that(3,4) by (simp add: consecutive_score_def Let_def)
    qed
    ultimately have "?f + ?i + ?c + ?s = 2" using s by simp
    then show ?thesis
      unfolding investor_score_eq [OF assms(1)] by (simp add: py_round_numeral)
  qed
  show ?thesis using ge eq by blast
qed

theorem investor_score_floor_witness:
  "data_source investor_no_activity \<noteq> Some ''default''
   \<and> fl_le (get0 (short_selling_ratio investor_no_activity)) 1
   \<and> fst (calculate_investor_score (Some investor_no_activity) 12) = 2"
proof -
  have h1: "data_source investor_no_activity \<noteq> Some ''default''"
    by (simp add: investor_no_activity_def src_trading_value_def)
  have h2: "fl_le (get0 (short_selling_ratio investor_no_activity)) 1"
    by (simp add: investor_no_activity_def get0_def)
  have h3: "\<not> fl_gt (get0 (foreign_net_buy investor_no_activity)) 0
      \<and> \<not> fl_gt (get0 (institution_net_buy investor_no_activity)) 0
      \<and> \<not> fl_ge (get0 (net_buy_days investor_no_activity)) 3
      \<and> \<not> (fl_ge (get0 (foreign_buy_days investor_no_activity)) 3
           \<and> fl_ge (get0 (institution_buy_days investor_no_activity)) 3)"
    by (simp add: investor_no_activity_def get0_def)
  show ?thesis using investor_score_floor [OF h1 h2] h1 h2 h3 by blast
qed

subsection \<open>Pattern score\<close>

lemma pattern_score_bounds:
  "0 \<le> fst (calculate_pattern_score v p b) \<and> fst (calculate_pattern_score v p b) \<le> 20"
proof -
  obtain vf vd where v: "v = (vf, vd)" by (cases v)
  obtain pf pd where p: "p = (pf, pd)" by (cases p)
  obtain bf bd where b: "b = (bf, bd)" by (cases b)
  let ?s = "(if vf then 8 else 0) + (if pf then 7 else 0) + (if bf then 5 else (0::real))"
  have e: "fst (calculate_pattern_score v p b) = py_round ?s 1"
    by (simp add: calculate_pattern_score_def v p b Let_def)
  have "0 \<le> ?s" "?s \<le> 20" by simp_all
  then show ?thesis unfolding e
    using py_round_nonneg [of ?s 1] py_round_le_numeral [of ?s _ 1] by blast
qed

subsection \<open>Fundamental score\<close>

lemma fl_gt_fin_part: "fl_gt x 0 \<Longrightarrow> 0 \<le> fin_part x"
  by (cases x) simp_all

lemma ge_ladder_nonneg:
  "0 \<le> p1 \<Longrightarrow> 0 \<le> p2 \<Longrightarrow> 0 \<le> p3 \<Longrightarrow> 0 \<le> sl \<Longrightarrow> 0 \<le> ge_ladder x t1 p1 t2 p2 t3 p3 sl"
  by (simp add: ge_ladder_def fl_gt_fin_part)

lemma ge_ladder2_nonneg:
  "0 \<le> p1 \<Longrightarrow> 0 \<le> p2 \<Longrightarrow> 0 \<le> sl \<Longrightarrow> 0 \<le> ge_ladder2 x t1 p1 t2 p2 sl"
  by (simp add: ge_ladder2_def fl_gt_fin_part)

lemma multiple_ladder_nonneg:
  "0 \<le> p1 \<Longrightarrow> 0 \<le> p2 \<Longrightarrow> 0 \<le> p3 \<Longrightarrow> 0 \<le> multiple_ladder x t1 p1 t2 p2 t3 p3"
  by (simp add: multiple_ladder_def)

lemma debt_ladder_nonneg: "0 \<le> debt_ladder x"
  by (simp add: debt_ladder_def)

lemma scores_f_data_fundamental_nonneg:
  "0 \<le> sum_list (num_values (scores_f_data_fundamental fos fd))"
  by (simp add: scores_f_data_fundamental_def Let_def ge_ladder_nonneg multiple_ladder_nonneg
      add_nonneg_nonneg)

lemma scores_f_data_financial_nonneg:
  "0 \<le> sum_list (num_values (scores_f_data_financial fos fd))"
  by (simp add: scores_f_data_financial_def Let_def ge_ladder_nonneg debt_ladder_nonneg
      add_nonneg_nonneg)

lemma scores_full_nonneg:
  "0 \<le> sum_list (num_values (scores_full fos fd))"
  by (simp add: scores_full_def Let_def ge_ladder_nonneg ge_ladder2_nonneg debt_ladder_nonneg
      add_nonneg_nonneg)

lemma scores_valuation_nonneg:
  "0 \<le> fst (scores_valuation fos fd)"
  by (simp add: scores_valuation_def Let_def ge_ladder2_nonneg multiple_ladder_nonneg
      add_nonneg_nonneg)

lemma fundamental_total_nonneg: "0 \<le> fst (fundamental_total fos fd ds)"
  by (simp add: fundamental_total_def Let_def scores_f_data_fundamental_nonneg
      scores_f_data_financial_nonneg scores_full_nonneg scores_valuation_nonneg)

lemma fundamental_score_eq:
  "fd \<noteq> [] \<Longrightarrow>
   fst (calculate_fundamental_score fos (Some fd)) =
     min (py_round (fst (fundamental_total fos fd
       (dict_get fd ''source'' (dict_get fd ''data_source'' (Str ''unknown''))))) 1) 30"
  by (simp add: calculate_fundamental_score_def Let_def split_beta)

lemma fundamental_score_bounds:
  "0 \<le> fst (calculate_fundamental_score fos fdata)
   \<and> fst (calculate_fundamental_score fos fdata) \<le> 30"
proof (cases "fdata = None \<or> fdata = Some []")
  case True
  then show ?thesis
    by (auto simp: calculate_fundamental_score_def no_financial_data_result_def)
next
  case False
  then obtain fd where fd: "fdata = Some fd" "fd \<noteq> []" by (cases fdata) auto
  show ?thesis
    unfolding fd(1) fundamental_score_eq [OF fd(2)]
    using py_round_nonneg [OF fundamental_total_nonneg] by simp
qed

subsection \<open>C5: no fundamentals\<close>

text \<open>
  C5 as stated: with no financial data (the argument \<open>None\<close> or the empty dict) the
  fundamental score is a floor strictly above zero. The function returns 0.0 there.
\<close>

theorem fundamental_floor_counterexample:
  "\<not> 0 < fst (calculate_fundamental_score no_float None)
   \<and> \<not> 0 < fst (calculate_fundamental_score no_float (Some []))"
  by (simp add: calculate_fundamental_score_def no_financial_data_result_def)

text \<open>
  C5, amended. When the financial-data input is \<open>None\<close> or empty, the function returns
  0.0 with the result tagged \<open>data_source = 'none'\<close> and the message "no financial data".
  The minimal floor score 3.0, tagged with the message "financial data insufficient", is
  what a non-empty record gets whose source is not an \<open>f_data\<close> one and which has neither
  \<open>roe\<close> with \<open>debt_ratio\<close> nor \<open>per\<close> nor \<open>pbr\<close>.
\<close>

theorem fundamental_no_data:
  "fst (calculate_fundamental_score fos None) = 0
   \<and> fst (calculate_fundamental_score fos (Some [])) = 0
   \<and> map_of (snd (calculate_fundamental_score fos None)) ''data_source'' = Some (Str ''none'')
   \<and> map_of (snd (calculate_fundamental_score fos None)) ''message''
       = Some (Str msg_no_financial_data)
   \<and> calculate_fundamental_score fos (Some []) = calculate_fundamental_score fos None
   \<and> (fd \<noteq> []
        \<and> dict_get fd ''source'' (dict_get fd ''data_source'' (Str ''unknown''))
            \<notin> {Str ''f_data_fundamental'', Str ''f_data_financial''}
        \<and> \<not> (has_key fd ''roe'' \<and> has_key fd ''debt_ratio'')
        \<and> \<not> has_key fd ''per'' \<and> \<not> has_key fd ''pbr''
       \<longrightarrow> fst (calculate_fundamental_score fos (Some fd)) = 3
           \<and> map_of (snd (calculate_fundamental_score fos (Some fd))) ''scores_detail''
               = Some (Dict [(''message'', Str msg_financial_insufficient)]))"
proof (intro conjI impI)
  show "fst (calculate_fundamental_score fos None) = 0"
    by (simp add: calculate_fundamental_score_def no_financial_data_result_def)
  show "fst (calculate_fundamental_score fos (Some [])) = 0"
    by (simp add: calculate_fundamental_score_def no_financial_data_result_def)
  show "map_of (snd (calculate_fundamental_score fos None)) ''data_source'' = Some (Str ''none'')"
    by (simp add: calculate_fundamental_score_def no_financial_data_result_def)
  show "map_of (snd (calculate_fundamental_score fos None)) ''message''
       = Some (Str msg_no_financial_data)"
    by (simp add: calculate_fundamental_score_def no_financial_data_result_def)
  show "calculate_fundamental_score fos (Some []) = calculate_fundamental_score fos None"
    by (simp add: calculate_fundamental_score_def)
next
  assume a: "fd \<noteq> []
        \<and> dict_get fd ''source'' (dict_get fd ''data_source'' (Str ''unknown''))
            \<notin> {Str ''f_data_fundamental'', Str ''f_data_financial''}
        \<and> \<not> (has_key fd ''roe'' \<and> has_key fd ''debt_ratio'')
        \<and> \<not> has_key fd ''per'' \<and> \<not> has_key fd ''pbr''"
  let ?ds = "dict_get fd ''source'' (dict_get fd ''data_source'' (Str ''unknown''))"
  have t: "fundamental_total fos fd ?ds = (3, [(''message'', Str msg_financial_insufficient)])"
    using a unfolding fundamental_total_def by (simp only: insert_iff empty_iff de_Morgan_disj if_False simp_thms)
  show "fst (calculate_fundamental_score fos (Some fd)) = 3"
    using a unfolding fundamental_score_eq [of fd fos, OF conjunct1 [OF a]] t
    by (simp add: py_round_numeral)
  show "map_of (snd (calculate_fundamental_score fos (Some fd))) ''scores_detail''
               = Some (Dict [(''message'', Str msg_financial_insufficient)])"
    using a by (simp add: calculate_fundamental_score_def Let_def t)
qed

theorem fundamental_no_data_witness:
  "record_without_figures \<noteq> []
   \<and> \<not> has_key record_without_figures ''roe''
   \<and> \<not> has_key record_without_figures ''per''
   \<and> \<not> has_key record_without_figures ''pbr''
   \<and> fst (calculate_fundamental_score no_float (Some record_without_figures)) = 3"
proof -
  have h: "record_without_figures \<noteq> []
        \<and> dict_get record_without_figures ''source''
             (dict_get record_without_figures ''data_source'' (Str ''unknown''))
            \<notin> {Str ''f_data_fundamental'', Str ''f_data_financial''}
        \<and> \<not> (has_key record_without_figures ''roe'' \<and> has_key record_without_figures ''debt_ratio'')
        \<and> \<not> has_key record_without_figures ''per'' \<and> \<not> has_key record_without_figures ''pbr''"
    by (simp add: record_without_figures_def dict_get_def has_key_def)
  have k: "\<not> has_key record_without_figures ''roe''"
    by (simp add: record_without_figures_def has_key_def)
  show ?thesis
    using fundamental_no_data [of no_float record_without_figures] h k by blast
qed

subsection \<open>Rows of the indicator frame\<close>

lemma length_rows_calculate_indicators:
  "length (rows (calculate_indicators bars)) = length bars"
  by (simp add: calculate_indicators_def)

lemma rows_nth:
  "i < length bars \<Longrightarrow> rows (calculate_indicators bars) ! i = indicator_row bars i"
  by (auto simp: calculate_indicators_def)

lemma last_rows:
  assumes "bars \<noteq> []"
  shows "last (rows (calculate_indicators bars)) = indicator_row bars (length bars - 1)"
proof -
  have "rows (calculate_indicators bars) \<noteq> []"
    using assms length_rows_calculate_indicators [of bars] by (metis length_0_conv)
  then have "last (rows (calculate_indicators bars))
      = rows (calculate_indicators bars) ! (length (rows (calculate_indicators bars)) - 1)"
    by (rule last_conv_nth)
  also have "\<dots> = indicator_row bars (length bars - 1)"
    using assms by (simp add: length_rows_calculate_indicators rows_nth)
  finally show ?thesis .
qed

lemma columns_calculate_indicators:
  "bars \<noteq> [] \<Longrightarrow> columns (calculate_indicators bars) = price_columns @ indicator_columns"
  by (simp add: calculate_indicators_def)

lemma not_empty_calculate_indicators:
  "bars \<noteq> [] \<Longrightarrow> \<not> frame_empty (calculate_indicators bars)"
  by (simp add: calculate_indicators_def frame_empty_def price_columns_def)

lemma has_column_calculate_indicators:
  assumes "bars \<noteq> []"
  shows "has_column (calculate_indicators bars) ''MA20''"
    and "has_column (calculate_indicators bars) ''MA60''"
    and "has_column (calculate_indicators bars) ''MA120''"
    and "has_column (calculate_indicators bars) ''Volume_MA20''"
    and "has_column (calculate_indicators bars) ''Volume''"
    and "has_column (calculate_indicators bars) ''52W_Low''"
    and "has_column (calculate_indicators bars) ''Return_13W''"
    and "has_column (calculate_indicators bars) ''Return_26W''"
  using assms
  by (simp_all add: has_column_def columns_calculate_indicators price_columns_def
      indicator_columns_def)

lemma indicator_row_fields:
  "Close (indicator_row bars i) = Close (bars ! i)"
  "Volume (indicator_row bars i) = Volume (bars ! i)"
  "High (indicator_row bars i) = High (bars ! i)"
  "Low (indicator_row bars i) = Low (bars ! i)"
  "MA20 (indicator_row bars i) = rolling_mean 20 (map Close bars) i"
  "MA60 (indicator_row bars i) = rolling_mean 60 (map Close bars) i"
  "MA120 (indicator_row bars i) = rolling_mean 120 (map Close bars) i"
  "Volume_MA5 (indicator_row bars i) = rolling_mean 5 (map Volume bars) i"
  "Volume_MA20 (indicator_row bars i) = rolling_mean 20 (map Volume bars) i"
  "Return_1D (indicator_row bars i) = pct_change 1 (map Close bars) i"
  "Return_13W (indicator_row bars i) = pct_change 65 (map Close bars) i"
  "Return_26W (indicator_row bars i) = pct_change 130 (map Close bars) i"
  "RSI (indicator_row bars i) = rsi_value (rolling_mean 14 (gain_series (map Close bars)) i)
                          (rolling_mean 14 (loss_series (map Close bars)) i)"
  "Upper_Band (indicator_row bars i) = fl_add (Fin (rolling_mean 20 (map Close bars) i))
      (fl_scale (rolling_std 20 1 (map Close bars) i) 2)"
  "Lower_Band (indicator_row bars i) = fl_sub (Fin (rolling_mean 20 (map Close bars) i))
      (fl_scale (rolling_std 20 1 (map Close bars) i) 2)"
  "W52_High (indicator_row bars i) = fin_part (series_max (rolling_window 252 (map High bars) i))"
  "W52_Low (indicator_row bars i) = fin_part (series_min (rolling_window 252 (map Low bars) i))"
  "MACD (indicator_row bars i) = macd_series (map Close bars) ! i"
  by (simp_all add: indicator_row_def Let_def)

subsection \<open>Rolling windows\<close>

lemma length_rolling_window:
  "i < length xs \<Longrightarrow> length (rolling_window w xs i) = min w (Suc i)"
  by (auto simp: rolling_window_def)

lemma rolling_window_nonempty:
  "i < length xs \<Longrightarrow> 0 < w \<Longrightarrow> rolling_window w xs i \<noteq> []"
  using length_rolling_window [of i xs w] by (metis length_0_conv min_less_iff_conj less_numeral_extra(3) zero_less_Suc)

lemma set_rolling_window: "set (rolling_window w xs i) \<subseteq> set xs"
  unfolding rolling_window_def
  by (meson set_drop_subset set_take_subset subset_trans)

lemma mean_const:
  assumes "xs \<noteq> []" and "\<forall>x\<in>set xs. x = c"
  shows "mean xs = c"
proof -
  have "xs = replicate (length xs) c"
    using assms(2) by (simp add: replicate_length_same)
  then have "sum_list xs = real (length xs) * c"
    by (metis sum_list_replicate)
  then show ?thesis using assms(1) by (simp add: mean_def)
qed

lemma rolling_mean_const:
  assumes "i < length xs" and "0 < w" and "\<forall>x\<in>set xs. x = c"
  shows "rolling_mean w xs i = c"
  unfolding rolling_mean_def
  using rolling_window_nonempty [OF assms(1,2)] set_rolling_window [of w xs i] assms(3)
  by (intro mean_const) auto

subsection \<open>C7: series shorter than the window\<close>

text \<open>
  C7. On a price series shorter than a detector's window, the empty series included,
  \<open>detect_vcp\<close>, \<open>detect_pocket_pivot\<close> and \<open>detect_breakout\<close> raise nothing: each
  returns found = false with an empty evidence dict, whatever the other parameters.
\<close>

theorem detectors_short_series:
  assumes "frame_empty df \<or> length (rows df) < window_vcp"
    and "frame_empty df \<or> length (rows df) < window_pivot"
    and "frame_empty df \<or> length (rows df) < window_breakout"
  shows "detect_vcp df window_vcp std_threshold min_periods = Inr (False, [])
    \<and> detect_pocket_pivot df window_pivot min_range volume_factor = Inr (False, [])
    \<and> detect_breakout df window_breakout consolidation_days breakout_pct = Inr (False, [])"
  using assms by (simp add: detect_vcp_def detect_pocket_pivot_def detect_breakout_def)

theorem detectors_short_series_witness:
  "length (rows (calculate_indicators (replicate 49 default_bar))) < 50
   \<and> detect_vcp (calculate_indicators (replicate 49 default_bar)) 60 (8 / 10) 20 = Inr (False, [])
   \<and> detect_pocket_pivot (calculate_indicators (replicate 49 default_bar)) 50 10 (3 / 2)
       = Inr (False, [])
   \<and> detect_breakout (calculate_indicators (replicate 49 default_bar)) 60 20 3 = Inr (False, [])
   \<and> detect_vcp (calculate_indicators []) 60 (8 / 10) 20 = Inr (False, [])
   \<and> detect_pocket_pivot (calculate_indicators []) 50 10 (3 / 2) = Inr (False, [])
   \<and> detect_breakout (calculate_indicators []) 60 20 3 = Inr (False, [])"
proof -
  let ?df = "calculate_indicators (replicate 49 default_bar)"
  have l: "length (rows ?df) = 49" by (simp add: length_rows_calculate_indicators)
  have e: "frame_empty (calculate_indicators [])"
    by (simp add: calculate_indicators_def frame_empty_def)
  show ?thesis
    using detectors_short_series [of ?df 60 50 60 "8 / 10" 20 10 "3 / 2" 20 3]
      detectors_short_series [of "calculate_indicators []" 60 50 60 "8 / 10" 20 10 "3 / 2" 20 3]
      l e
    by simp
qed

text \<open>The VCP detector has a second floor of 50 rows under its window.\<close>

lemma detect_vcp_under_50:
  assumes "length (rows df) < 50 \<or> window < 50" and "min_periods \<le> 20"
  shows "detect_vcp df window std_threshold min_periods = Inr (False, [])"
  using assms by (auto simp: detect_vcp_def tail_def Let_def)

subsection \<open>The latest row of a series that ends in a jump\<close>

lemma rolling_window_replicate_snoc:
  assumes "0 < w"
  shows "rolling_window w (replicate n a @ [b]) n = replicate (min (w - 1) n) a @ [b]"
proof -
  have k: "Suc n - w \<le> n" using assms by simp
  have m: "n - (Suc n - w) = min (w - 1) n" using assms by auto
  show ?thesis
    unfolding rolling_window_def using k by (simp add: m)
qed

lemma mean_replicate_snoc:
  "mean (replicate m a @ [b]) = (real m * a + b) / (real m + 1)"
  by (simp add: mean_def sum_list_replicate add.commute)

lemma rolling_mean_replicate_snoc:
  assumes "0 < w"
  shows "rolling_mean w (replicate n a @ [b]) n
    = (real (min (w - 1) n) * a + b) / (real (min (w - 1) n) + 1)"
  unfolding rolling_mean_def rolling_window_replicate_snoc [OF assms] mean_replicate_snoc ..

lemma tail_all: "length xs \<le> k \<Longrightarrow> tail k xs = xs"
  by (simp add: tail_def)

lemma last_tail: "0 < k \<Longrightarrow> xs \<noteq> [] \<Longrightarrow> last (tail k xs) = last xs"
  by (simp add: tail_def)

lemma length_tail: "length (tail k xs) = min k (length xs)"
  by (auto simp: tail_def)

lemma iloc_neg_tail:
  assumes "j \<le> k" and "0 < j" and "j \<le> length xs"
  shows "iloc_neg (tail k xs) j = iloc_neg xs j"
proof -
  have "(length xs - k) + (min k (length xs) - j) = length xs - j"
    using assms by auto
  then show ?thesis
    unfolding iloc_neg_def length_tail
    using assms by (simp add: tail_def)
qed

subsection \<open>Pocket pivot\<close>

text \<open>On a frame with at least \<open>window\<close> rows, for a window of at least two rows, the
  detector raises nothing and fires exactly on the three conditions of the code.\<close>

lemma detect_pocket_pivot_found:
  assumes "\<not> frame_empty df" and "window \<le> length (rows df)" and "2 \<le> window"
  shows "map_sum id fst (detect_pocket_pivot df window min_range volume_factor)
    = Inr ((has_column df ''Volume_MA20''
            \<and> Volume (last (rows df)) > Volume_MA20 (last (rows df)) * volume_factor)
           \<and> Close (last (rows df)) > Close (iloc_neg (rows df) 2) * (103 / 100)
           \<and> (has_column df ''MA20'' \<and> has_column df ''MA60''
              \<and> Close (last (rows df)) > MA20 (last (rows df))
              \<and> MA20 (last (rows df)) > MA60 (last (rows df))))"
proof -
  have ne: "rows df \<noteq> []" using assms(1) by (simp add: frame_empty_def)
  have l: "\<not> length (tail window (rows df)) < 2"
    using assms(2,3) by (simp add: length_tail)
  have la: "last (tail window (rows df)) = last (rows df)"
    using assms(3) ne by (simp add: last_tail)
  have pr: "iloc_neg (tail window (rows df)) 2 = iloc_neg (rows df) 2"
    using assms(2,3) by (intro iloc_neg_tail) auto
  show ?thesis
    using assms(1,2) l
    by (simp add: detect_pocket_pivot_def Let_def la pr)
qed

subsection \<open>C6: the 3 percent boundary of the pocket pivot\<close>

lemma pivot_series_facts:
  "length pivot_series = 50"
  "pivot_series \<noteq> []"
  "map Close pivot_series = replicate 49 10000 @ [10300]"
  "map Volume pivot_series = replicate 49 100000 @ [400000]"
  "pivot_series ! 49 = pivot_bar"
  "pivot_series ! 48 = default_bar"
  by (simp_all add: pivot_series_def pivot_bar_def default_bar_def nth_append)

lemma pivot_frame_rows:
  "last (rows pivot_frame) = indicator_row pivot_series 49"
  "iloc_neg (rows pivot_frame) 2 = indicator_row pivot_series 48"
  "length (rows pivot_frame) = 50"
  "\<not> frame_empty pivot_frame"
proof -
  show "last (rows pivot_frame) = indicator_row pivot_series 49"
    unfolding pivot_frame_def using last_rows [OF pivot_series_facts(2)]
    by (simp add: pivot_series_facts(1))
  show l: "length (rows pivot_frame) = 50"
    unfolding pivot_frame_def by (simp add: length_rows_calculate_indicators pivot_series_facts(1))
  show "iloc_neg (rows pivot_frame) 2 = indicator_row pivot_series 48"
    unfolding iloc_neg_def l unfolding pivot_frame_def
    using rows_nth [of 48 pivot_series] by (simp add: pivot_series_facts(1))
  show "\<not> frame_empty pivot_frame"
    unfolding pivot_frame_def by (rule not_empty_calculate_indicators [OF pivot_series_facts(2)])
qed

lemma pivot_latest_values:
  "Close (last (rows pivot_frame)) = 10300"
  "Close (iloc_neg (rows pivot_frame) 2) = 10000"
  "Volume (last (rows pivot_frame)) = 400000"
  "Volume_MA20 (last (rows pivot_frame)) = 115000"
  "MA20 (last (rows pivot_frame)) = 10015"
  "MA60 (last (rows pivot_frame)) = 10006"
  unfolding pivot_frame_rows indicator_row_fields pivot_series_facts
  using rolling_mean_replicate_snoc [of 20 49 "10000::real" 10300]
    rolling_mean_replicate_snoc [of 60 49 "10000::real" 10300]
    rolling_mean_replicate_snoc [of 20 49 "100000::real" 400000]
  by (simp_all add: pivot_bar_def default_bar_def)

text \<open>
  C6 says that a close exactly 3 percent above the prior close satisfies the price
  condition. On \<open>pivot_frame\<close> the volume is above 1.5 times its 20-period average, the
  close is exactly 1.03 times the prior close and close > MA20 > MA60; the code compares
  the close with a strict \<open>>\<close> and does not fire.
\<close>

theorem pocket_pivot_boundary_not_found:
  "Volume (last (rows pivot_frame)) > (3 / 2) * Volume_MA20 (last (rows pivot_frame))
   \<and> Close (last (rows pivot_frame)) = Close (iloc_neg (rows pivot_frame) 2) * (103 / 100)
   \<and> Close (last (rows pivot_frame)) > MA20 (last (rows pivot_frame))
   \<and> MA20 (last (rows pivot_frame)) > MA60 (last (rows pivot_frame))
   \<and> map_sum id fst (detect_pocket_pivot pivot_frame 50 10 (3 / 2)) = Inr False"
proof -
  have "map_sum id fst (detect_pocket_pivot pivot_frame 50 10 (3 / 2)) = Inr False"
    using detect_pocket_pivot_found [OF pivot_frame_rows(4), of 50 10 "3 / 2"]
    by (simp add: pivot_frame_rows(3) pivot_latest_values)
  then show ?thesis by (simp add: pivot_latest_values)
qed

subsection \<open>Indicators of a flat series\<close>

lemma const_diff:
  assumes "\<forall>x\<in>set xs. x = c" and "i < length xs"
  shows "xs ! i - xs ! (i - 1) = (0::real)"
proof -
  have "i - 1 < length xs" using assms(2) by arith
  then have "xs ! (i - 1) \<in> set xs" by (rule nth_mem)
  then have a: "xs ! (i - 1) = c" using assms(1) by blast
  have "xs ! i \<in> set xs" using assms(2) by (rule nth_mem)
  then have b: "xs ! i = c" using assms(1) by blast
  show ?thesis unfolding a b by simp
qed

lemma gain_series_const:
  assumes "\<forall>x\<in>set xs. x = c"
  shows "\<forall>g\<in>set (gain_series xs). g = 0"
proof -
  have "gain_series xs = map (\<lambda>i. 0) [0..<length xs]"
    unfolding gain_series_def
  proof (rule map_cong [OF refl])
    fix i assume "i \<in> set [0..<length xs]"
    then have "i < length xs" by simp
    then have d: "xs ! i - xs ! (i - 1) = 0" by (rule const_diff [OF assms])
    show "(if 0 < i \<and> xs ! i - xs ! (i - 1) > 0 then xs ! i - xs ! (i - 1) else 0) = 0"
      unfolding d by simp
  qed
  then show ?thesis by simp
qed

lemma loss_series_const:
  assumes "\<forall>x\<in>set xs. x = c"
  shows "\<forall>g\<in>set (loss_series xs). g = 0"
proof -
  have "loss_series xs = map (\<lambda>i. 0) [0..<length xs]"
    unfolding loss_series_def
  proof (rule map_cong [OF refl])
    fix i assume "i \<in> set [0..<length xs]"
    then have "i < length xs" by simp
    then have d: "xs ! i - xs ! (i - 1) = 0" by (rule const_diff [OF assms])
    show "(if 0 < i \<and> xs ! i - xs ! (i - 1) < 0 then - (xs ! i - xs ! (i - 1)) else 0) = 0"
      unfolding d by simp
  qed
  then show ?thesis by simp
qed

lemma length_gain_loss_series:
  "length (gain_series xs) = length xs" "length (loss_series xs) = length xs"
  by (simp_all add: gain_series_def loss_series_def)

lemma rsi_value_zero: "rsi_value 0 0 = NaN"
  by (simp add: rsi_value_def fdiv_def)

lemma flat_latest:
  assumes "bars \<noteq> []" and "\<forall>b\<in>set bars. Close b = c"
  shows "Close (last (rows (calculate_indicators bars))) = c"
    and "MA20 (last (rows (calculate_indicators bars))) = c"
    and "MA60 (last (rows (calculate_indicators bars))) = c"
    and "MA120 (last (rows (calculate_indicators bars))) = c"
    and "RSI (last (rows (calculate_indicators bars))) = NaN"
proof -
  let ?i = "length bars - 1"
  let ?cs = "map Close bars"
  have i: "?i < length ?cs" using assms(1) by simp
  have cs: "\<forall>x\<in>set ?cs. x = c" using assms(2) by auto
  have "bars ! ?i \<in> set bars" using assms(1) by simp
  then show "Close (last (rows (calculate_indicators bars))) = c"
    unfolding last_rows [OF assms(1)] indicator_row_fields using assms(2) by blast
  show "MA20 (last (rows (calculate_indicators bars))) = c"
    unfolding last_rows [OF assms(1)] indicator_row_fields
    by (rule rolling_mean_const [OF i _ cs]) simp
  show "MA60 (last (rows (calculate_indicators bars))) = c"
    unfolding last_rows [OF assms(1)] indicator_row_fields
    by (rule rolling_mean_const [OF i _ cs]) simp
  show "MA120 (last (rows (calculate_indicators bars))) = c"
    unfolding last_rows [OF assms(1)] indicator_row_fields
    by (rule rolling_mean_const [OF i _ cs]) simp
  have g: "rolling_mean 14 (gain_series ?cs) ?i = 0"
    by (rule rolling_mean_const [OF _ _ gain_series_const [OF cs]])
      (use i in \<open>simp_all add: length_gain_loss_series\<close>)
  have l: "rolling_mean 14 (loss_series ?cs) ?i = 0"
    by (rule rolling_mean_const [OF _ _ loss_series_const [OF cs]])
      (use i in \<open>simp_all add: length_gain_loss_series\<close>)
  show "RSI (last (rows (calculate_indicators bars))) = NaN"
    unfolding last_rows [OF assms(1)] indicator_row_fields g l by (rule rsi_value_zero)
qed

lemma trend_alignment_detail:
  assumes "\<not> frame_empty df" and "has_column df ''MA20''" and "has_column df ''MA60''"
  shows "map_of (snd (calculate_trend_score df)) ''ma_alignment_score''
    = Some (num ((if Close (last (rows df)) > MA20 (last (rows df)) then 3 else 0)
                 + (if MA20 (last (rows df)) > MA60 (last (rows df)) then 3 else 0)))"
  using assms
  by (simp add: calculate_trend_score_def ma_alignment_section_def Let_def split_beta)

subsection \<open>C4: a flat series\<close>

text \<open>
  C4 as stated: on 130 periods of constant close 10000 the RSI of the latest row is about
  50. The average gain and the average loss are both 0 there, the ratio is 0 / 0 and the
  RSI is NaN.
\<close>

lemma flat_series_facts:
  "length flat_series = 130"
  "flat_series \<noteq> []"
  "\<forall>b\<in>set flat_series. Close b = 10000"
  by (simp_all add: flat_series_def default_bar_def)

theorem flat_series_rsi_counterexample:
  "length flat_series = 130
   \<and> Close (last (rows (calculate_indicators flat_series))) = 10000
   \<and> RSI (last (rows (calculate_indicators flat_series))) = NaN"
  using flat_series_facts(1) flat_latest(1,5) [OF flat_series_facts(2,3)] by blast

text \<open>
  C4, amended. For a price series of 130 periods (of any positive length) with constant
  close 10000 (any constant), \<open>calculate_indicators\<close> produces MA20 = MA60 = MA120 = that
  close at the latest row and an undefined RSI (NaN, the average gain and the average loss
  being both zero), and the MA-alignment component of \<open>calculate_trend_score\<close> on that
  series is 0, no strict \<open>>\<close> being satisfied.
\<close>

theorem flat_series_indicators:
  assumes "bars \<noteq> []" and "\<forall>b\<in>set bars. Close b = c"
  shows "MA20 (last (rows (calculate_indicators bars))) = c
    \<and> MA60 (last (rows (calculate_indicators bars))) = c
    \<and> MA120 (last (rows (calculate_indicators bars))) = c
    \<and> RSI (last (rows (calculate_indicators bars))) = NaN
    \<and> map_of (snd (calculate_trend_score (calculate_indicators bars))) ''ma_alignment_score''
        = Some (num 0)"
proof -
  have "map_of (snd (calculate_trend_score (calculate_indicators bars))) ''ma_alignment_score''
        = Some (num 0)"
    unfolding trend_alignment_detail [OF not_empty_calculate_indicators [OF assms(1)]
        has_column_calculate_indicators(1,2) [OF assms(1)]]
      flat_latest(1-3) [OF assms]
    by simp
  then show ?thesis using flat_latest(2-5) [OF assms] by simp
qed

theorem flat_series_indicators_witness:
  "length flat_series = 130
   \<and> Close (hd flat_series) = 10000
   \<and> MA20 (last (rows (calculate_indicators flat_series))) = 10000
   \<and> MA60 (last (rows (calculate_indicators flat_series))) = 10000
   \<and> MA120 (last (rows (calculate_indicators flat_series))) = 10000
   \<and> RSI (last (rows (calculate_indicators flat_series))) = NaN
   \<and> map_of (snd (calculate_trend_score (calculate_indicators flat_series)))
        ''ma_alignment_score'' = Some (num 0)"
proof -
  have "hd flat_series \<in> set flat_series"
    using flat_series_facts(2) by simp
  then have "Close (hd flat_series) = 10000"
    using flat_series_facts(3) by blast
  then show ?thesis
    using flat_series_indicators [OF flat_series_facts(2,3)] flat_series_facts(1) by blast
qed

subsection \<open>The first row\<close>

lemma rolling_window_first:
  assumes "xs \<noteq> []" and "0 < w"
  shows "rolling_window w xs 0 = [hd xs]"
proof -
  obtain x r where xs: "xs = x # r" using assms(1) by (cases xs) auto
  have "Suc 0 - w = 0" using assms(2) by simp
  then show ?thesis unfolding rolling_window_def xs by simp
qed

lemma rolling_mean_first:
  assumes "xs \<noteq> []" and "0 < w"
  shows "rolling_mean w xs 0 = hd xs"
  unfolding rolling_mean_def rolling_window_first [OF assms] by (simp add: mean_def)

lemma rolling_std_first:
  assumes "xs \<noteq> []" and "0 < w"
  shows "rolling_std w m xs 0 = NaN"
  unfolding rolling_std_def rolling_window_first [OF assms]
  by (simp add: sample_std_def)

lemma pct_change_early: "i < k \<Longrightarrow> pct_change k xs i = NaN"
  by (simp add: pct_change_def)

lemma gain_loss_nonempty:
  "xs \<noteq> [] \<Longrightarrow> gain_series xs \<noteq> []" "xs \<noteq> [] \<Longrightarrow> loss_series xs \<noteq> []"
  using length_gain_loss_series [of xs] by (metis length_0_conv)+

lemma gain_series_first:
  assumes "xs \<noteq> []"
  shows "hd (gain_series xs) = 0"
proof -
  have l: "0 < length xs" using assms by simp
  have "gain_series xs ! 0 = 0"
    unfolding gain_series_def using l by (simp only: nth_map length_upt diff_zero nth_upt) simp
  then show ?thesis using hd_conv_nth [OF gain_loss_nonempty(1) [OF assms]] by simp
qed

lemma loss_series_first:
  assumes "xs \<noteq> []"
  shows "hd (loss_series xs) = 0"
proof -
  have l: "0 < length xs" using assms by simp
  have "loss_series xs ! 0 = 0"
    unfolding loss_series_def using l by (simp only: nth_map length_upt diff_zero nth_upt) simp
  then show ?thesis using hd_conv_nth [OF gain_loss_nonempty(2) [OF assms]] by simp
qed

lemma macd_first: "xs \<noteq> [] \<Longrightarrow> macd_series xs ! 0 = 0"
  by (cases xs) (simp_all add: macd_series_def ewm_def)

lemma first_row:
  assumes "bars \<noteq> []"
  shows "MA20 (indicator_row bars 0) = Close (hd bars)"
    and "MA60 (indicator_row bars 0) = Close (hd bars)"
    and "MA120 (indicator_row bars 0) = Close (hd bars)"
    and "Volume_MA5 (indicator_row bars 0) = Volume (hd bars)"
    and "Volume_MA20 (indicator_row bars 0) = Volume (hd bars)"
    and "W52_High (indicator_row bars 0) = High (hd bars)"
    and "W52_Low (indicator_row bars 0) = Low (hd bars)"
    and "MACD (indicator_row bars 0) = 0"
    and "Upper_Band (indicator_row bars 0) = NaN"
    and "Lower_Band (indicator_row bars 0) = NaN"
    and "RSI (indicator_row bars 0) = NaN"
proof -
  have c: "map Close bars \<noteq> []" and v: "map Volume bars \<noteq> []"
    and h: "map High bars \<noteq> []" and l: "map Low bars \<noteq> []"
    using assms by simp_all
  have hd_map: "hd (map f bars) = f (hd bars)" for f :: "bar \<Rightarrow> real"
    using assms by (simp add: hd_map)
  show "MA20 (indicator_row bars 0) = Close (hd bars)"
    unfolding indicator_row_fields by (simp add: rolling_mean_first [OF c] hd_map)
  show "MA60 (indicator_row bars 0) = Close (hd bars)"
    unfolding indicator_row_fields by (simp add: rolling_mean_first [OF c] hd_map)
  show "MA120 (indicator_row bars 0) = Close (hd bars)"
    unfolding indicator_row_fields by (simp add: rolling_mean_first [OF c] hd_map)
  show "Volume_MA5 (indicator_row bars 0) = Volume (hd bars)"
    unfolding indicator_row_fields by (simp add: rolling_mean_first [OF v] hd_map)
  show "Volume_MA20 (indicator_row bars 0) = Volume (hd bars)"
    unfolding indicator_row_fields by (simp add: rolling_mean_first [OF v] hd_map)
  show "W52_High (indicator_row bars 0) = High (hd bars)"
    unfolding indicator_row_fields
    by (simp add: rolling_window_first [OF h] series_max_def hd_map)
  show "W52_Low (indicator_row bars 0) = Low (hd bars)"
    unfolding indicator_row_fields
    by (simp add: rolling_window_first [OF l] series_min_def hd_map)
  show "MACD (indicator_row bars 0) = 0"
    unfolding indicator_row_fields by (rule macd_first [OF c])
  show "Upper_Band (indicator_row bars 0) = NaN"
    unfolding indicator_row_fields by (simp add: rolling_std_first [OF c])
  show "Lower_Band (indicator_row bars 0) = NaN"
    unfolding indicator_row_fields by (simp add: rolling_std_first [OF c])
  show "RSI (indicator_row bars 0) = NaN"
    unfolding indicator_row_fields
    by (simp add: rolling_mean_first gain_loss_nonempty [OF c] gain_series_first [OF c]
        loss_series_first [OF c] rsi_value_zero)
qed

subsection \<open>C8: one row per bar\<close>

text \<open>
  C8 as stated: every indicator emits a value as soon as one period of history exists.
  On a series of one bar the one-day return, the RSI and the upper Bollinger band are NaN.
\<close>

theorem indicators_first_row_counterexample:
  "length (rows (calculate_indicators [default_bar])) = 1
   \<and> Return_1D (hd (rows (calculate_indicators [default_bar]))) = NaN
   \<and> RSI (hd (rows (calculate_indicators [default_bar]))) = NaN
   \<and> Upper_Band (hd (rows (calculate_indicators [default_bar]))) = NaN"
proof -
  have r: "hd (rows (calculate_indicators [default_bar])) = indicator_row [default_bar] 0"
    by (simp add: calculate_indicators_def)
  show ?thesis
    unfolding r
    using first_row(9,11) [of "[default_bar]"]
    by (simp add: length_rows_calculate_indicators indicator_row_fields pct_change_early)
qed

text \<open>
  C8, amended. For every price series \<open>calculate_indicators\<close> returns a frame with
  exactly as many rows as its input, and for a non-empty one with every indicator column
  added. The rolling-window indicators emit a value from the first row on (there the
  moving averages are the close, the volume averages the volume, the 52-week high and low
  the bar's high and low, MACD 0). The Bollinger bands and RSI are NaN on the first row,
  and a return over \<open>k\<close> periods (1, 65, 130) is NaN on the first \<open>k\<close> rows.
\<close>

theorem calculate_indicators_rows:
  "length (rows (calculate_indicators bars)) = length bars
   \<and> (bars \<noteq> [] \<longrightarrow>
        set indicator_columns \<subseteq> set (columns (calculate_indicators bars))
        \<and> MA20 (hd (rows (calculate_indicators bars))) = Close (hd bars)
        \<and> MA60 (hd (rows (calculate_indicators bars))) = Close (hd bars)
        \<and> MA120 (hd (rows (calculate_indicators bars))) = Close (hd bars)
        \<and> Volume_MA5 (hd (rows (calculate_indicators bars))) = Volume (hd bars)
        \<and> Volume_MA20 (hd (rows (calculate_indicators bars))) = Volume (hd bars)
        \<and> W52_High (hd (rows (calculate_indicators bars))) = High (hd bars)
        \<and> W52_Low (hd (rows (calculate_indicators bars))) = Low (hd bars)
        \<and> MACD (hd (rows (calculate_indicators bars))) = 0
        \<and> Upper_Band (hd (rows (calculate_indicators bars))) = NaN
        \<and> Lower_Band (hd (rows (calculate_indicators bars))) = NaN
        \<and> RSI (hd (rows (calculate_indicators bars))) = NaN)
   \<and> (\<forall>i < length bars.
        (i < 1 \<longrightarrow> Return_1D (rows (calculate_indicators bars) ! i) = NaN)
        \<and> (i < 65 \<longrightarrow> Return_13W (rows (calculate_indicators bars) ! i) = NaN)
        \<and> (i < 130 \<longrightarrow> Return_26W (rows (calculate_indicators bars) ! i) = NaN))"
proof (intro conjI impI allI)
  show "length (rows (calculate_indicators bars)) = length bars"
    by (rule length_rows_calculate_indicators)
next
  assume ne: "bars \<noteq> []"
  have r: "hd (rows (calculate_indicators bars)) = indicator_row bars 0"
    using ne by (simp add: calculate_indicators_def hd_map upt_conv_Cons)
  show "set indicator_columns \<subseteq> set (columns (calculate_indicators bars))"
    using ne by (simp add: columns_calculate_indicators)
  show "MA20 (hd (rows (calculate_indicators bars))) = Close (hd bars)"
    unfolding r by (rule first_row [OF ne])
  show "MA60 (hd (rows (calculate_indicators bars))) = Close (hd bars)"
    unfolding r by (rule first_row [OF ne])
  show "MA120 (hd (rows (calculate_indicators bars))) = Close (hd bars)"
    unfolding r by (rule first_row [OF ne])
  show "Volume_MA5 (hd (rows (calculate_indicators bars))) = Volume (hd bars)"
    unfolding r by (rule first_row [OF ne])
  show "Volume_MA20 (hd (rows (calculate_indicators bars))) = Volume (hd bars)"
    unfolding r by (rule first_row [OF ne])
  show "W52_High (hd (rows (calculate_indicators bars))) = High (hd bars)"
    unfolding r by (rule first_row [OF ne])
  show "W52_Low (hd (rows (calculate_indicators bars))) = Low (hd bars)"
    unfolding r by (rule first_row [OF ne])
  show "MACD (hd (rows (calculate_indicators bars))) = 0"
    unfolding r by (rule first_row [OF ne])
  show "Upper_Band (hd (rows (calculate_indicators bars))) = NaN"
    unfolding r by (rule first_row [OF ne])
  show "Lower_Band (hd (rows (calculate_indicators bars))) = NaN"
    unfolding r by (rule first_row [OF ne])
  show "RSI (hd (rows (calculate_indicators bars))) = NaN"
    unfolding r by (rule first_row [OF ne])
next
  fix i assume "i < length bars" "i < 1"
  then show "Return_1D (rows (calculate_indicators bars) ! i) = NaN"
    by (simp add: rows_nth indicator_row_fields pct_change_early)
next
  fix i assume "i < length bars" "i < 65"
  then show "Return_13W (rows (calculate_indicators bars) ! i) = NaN"
    by (simp add: rows_nth indicator_row_fields pct_change_early)
next
  fix i assume "i < length bars" "i < 130"
  then show "Return_26W (rows (calculate_indicators bars) ! i) = NaN"
    by (simp add: rows_nth indicator_row_fields pct_change_early)
qed

theorem calculate_indicators_rows_witness:
  "flat_series \<noteq> []
   \<and> length (rows (calculate_indicators flat_series)) = 130
   \<and> MA20 (hd (rows (calculate_indicators flat_series))) = Close (hd flat_series)
   \<and> RSI (hd (rows (calculate_indicators flat_series))) = NaN
   \<and> Return_13W (rows (calculate_indicators flat_series) ! 64) = NaN"
proof -
  have "(64::nat) < length flat_series" "(64::nat) < 65"
    by (simp_all add: flat_series_facts(1))
  then show ?thesis
    using calculate_indicators_rows [of flat_series] flat_series_facts(1,2) by metis
qed

subsection \<open>Trend score\<close>

lemma ma_alignment_bounds:
  "0 \<le> fst (ma_alignment_section df) \<and> fst (ma_alignment_section df) \<le> 6"
  by (simp add: ma_alignment_section_def Let_def)

lemma ma_trend_bounds:
  "0 \<le> fst (ma_trend_section df) \<and> fst (ma_trend_section df) \<le> 6"
  by (simp add: ma_trend_section_def Let_def)

lemma long_trend_bounds:
  "0 \<le> fst (long_trend_section df) \<and> fst (long_trend_section df) \<le> 6"
  by (simp add: long_trend_section_def Let_def)

lemma volume_tier_bounds: "0 \<le> volume_tier x \<and> volume_tier x \<le> 7"
  by (simp add: volume_tier_def)

lemma volume_bounds:
  "0 \<le> fst (volume_section df) \<and> fst (volume_section df) \<le> 7"
  using volume_tier_bounds
  by (simp add: volume_section_def Let_def add_nonneg_nonneg)

lemma trend_score_eq:
  "\<not> frame_empty df \<Longrightarrow>
   fst (calculate_trend_score df) =
     py_round (fst (ma_alignment_section df) + fst (ma_trend_section df)
               + fst (long_trend_section df) + fst (volume_section df)) 1"
  by (simp add: calculate_trend_score_def Let_def split_beta)

lemma trend_score_bounds:
  "0 \<le> fst (calculate_trend_score df) \<and> fst (calculate_trend_score df) \<le> 25"
proof (cases "frame_empty df")
  case True
  then show ?thesis by (simp add: calculate_trend_score_def)
next
  case False
  let ?s = "fst (ma_alignment_section df) + fst (ma_trend_section df)
               + fst (long_trend_section df) + fst (volume_section df)"
  have "0 \<le> ?s" "?s \<le> 25"
    using ma_alignment_bounds [of df] ma_trend_bounds [of df] long_trend_bounds [of df]
      volume_bounds [of df] by linarith+
  then show ?thesis
    unfolding trend_score_eq [OF False]
    using py_round_nonneg [of ?s 1] py_round_le_numeral [of ?s _ 1] by blast
qed

subsection \<open>Relative-strength score\<close>

lemma fl_sub_NaN_iff:
  "a \<noteq> NaN \<Longrightarrow> b \<noteq> NaN \<Longrightarrow> fl_sub a b = NaN \<longleftrightarrow> same_infinity a b"
  by (cases a; cases b) (simp_all add: same_infinity_def)

lemma rs_points_bounds:
  assumes "x \<noteq> NaN"
  shows "\<exists>r. rs_points x c = Fin r \<and> 0 \<le> r \<and> r \<le> 25 / 2"
proof (cases x)
  case (Fin v)
  define t where "t = min (max (v / c) 0) 1"
  have t: "0 \<le> t" "t \<le> 1" by (simp_all add: t_def)
  have "0 \<le> t * (25 / 2)" "t * (25 / 2) \<le> 25 / 2" using t by simp_all
  then show ?thesis unfolding Fin rs_points.simps t_def [symmetric] by blast
next
  case PInf
  have "rs_points PInf c = Fin (25 / 2) \<and> (0::real) \<le> 25 / 2 \<and> (25 / 2 :: real) \<le> 25 / 2"
    by simp
  then show ?thesis unfolding PInf by blast
next
  case NInf
  have "rs_points NInf c = Fin 0 \<and> (0::real) \<le> 0 \<and> (0::real) \<le> 25 / 2" by simp
  then show ?thesis unfolding NInf by blast
next
  case NaN
  then show ?thesis using assms by simp
qed

lemma rs_horizon_bounds:
  assumes "\<not> same_infinity s m"
  shows "\<exists>r. fst (rs_horizon p s m c suffix) = Fin r \<and> 0 \<le> r \<and> r \<le> 25 / 2"
proof (cases "p \<and> s \<noteq> NaN \<and> m \<noteq> NaN")
  case True
  then have "fl_sub s m \<noteq> NaN" using assms fl_sub_NaN_iff by blast
  from rs_points_bounds [OF this, of c] show ?thesis
    using True by (simp add: rs_horizon_def Let_def)
next
  case False
  then have "fst (rs_horizon p s m c suffix) = Fin 0"
    by (auto simp: rs_horizon_def)
  then show ?thesis by simp
qed

lemma rs_horizon_nan:
  assumes "p" and "same_infinity s m"
  shows "fst (rs_horizon p s m c suffix) = NaN"
  using assms by (auto simp: rs_horizon_def same_infinity_def Let_def)

lemma rs_score_eq:
  assumes "\<not> frame_empty s" and "\<not> frame_empty m"
  shows "fst (calculate_rs_score s m) =
    fl_round (fl_add (fl_add (Fin 0)
      (fst (rs_horizon (has_column s ''Return_13W'' \<and> has_column m ''Return_13W'')
         (Return_13W (last (rows s))) (Return_13W (last (rows m))) (2 / 10) ''13w'')))
      (fst (rs_horizon (has_column s ''Return_26W'' \<and> has_column m ''Return_26W'')
         (Return_26W (last (rows s))) (Return_26W (last (rows m))) (3 / 10) ''26w''))) 1"
  using assms by (simp add: calculate_rs_score_def Let_def split_beta)

text \<open>With no horizon on which the two returns are the same infinity, the
  relative-strength score is a number between 0 and 25.\<close>

lemma rs_score_bounds:
  assumes "\<not> same_infinity (Return_13W (last (rows s))) (Return_13W (last (rows m)))"
    and "\<not> same_infinity (Return_26W (last (rows s))) (Return_26W (last (rows m)))"
  shows "\<exists>x. fst (calculate_rs_score s m) = Fin x \<and> 0 \<le> x \<and> x \<le> 25"
proof (cases "frame_empty s \<or> frame_empty m")
  case True
  then have "fst (calculate_rs_score s m) = Fin 0" by (auto simp: calculate_rs_score_def)
  then show ?thesis by simp
next
  case False
  then have e: "\<not> frame_empty s" "\<not> frame_empty m" by simp_all
  obtain a where a: "fst (rs_horizon (has_column s ''Return_13W'' \<and> has_column m ''Return_13W'')
         (Return_13W (last (rows s))) (Return_13W (last (rows m))) (2 / 10) ''13w'') = Fin a"
    "0 \<le> a" "a \<le> 25 / 2"
    using rs_horizon_bounds [OF assms(1)] by blast
  obtain b where b: "fst (rs_horizon (has_column s ''Return_26W'' \<and> has_column m ''Return_26W'')
         (Return_26W (last (rows s))) (Return_26W (last (rows m))) (3 / 10) ''26w'') = Fin b"
    "0 \<le> b" "b \<le> 25 / 2"
    using rs_horizon_bounds [OF assms(2)] by blast
  have "0 \<le> a + b" "a + b \<le> 25" using a(2,3) b(2,3) by linarith+
  then have "0 \<le> py_round (a + b) 1 \<and> py_round (a + b) 1 \<le> 25"
    using py_round_nonneg [of "a + b" 1] py_round_le_numeral [of "a + b" _ 1] by blast
  then show ?thesis
    unfolding rs_score_eq [OF e] a(1) b(1) by simp
qed

subsection \<open>C9: the bounds of the sub-scores\<close>

lemma zero_start_facts:
  "length zero_start_series = 66"
  "zero_start_series \<noteq> []"
  "map Close zero_start_series = 0 # replicate 65 10000"
  by (simp_all add: zero_start_series_def zero_bar_def default_bar_def)

lemma zero_start_returns:
  "Return_13W (last (rows zero_start_frame)) = PInf"
  "Return_26W (last (rows zero_start_frame)) = NaN"
proof -
  have l: "last (rows zero_start_frame) = indicator_row zero_start_series 65"
    unfolding zero_start_frame_def last_rows [OF zero_start_facts(2)]
    by (simp add: zero_start_facts(1))
  have n: "(0 # replicate 65 (10000::real)) ! 65 = 10000"
    by (simp add: nth_Cons')
  show "Return_13W (last (rows zero_start_frame)) = PInf"
    unfolding l indicator_row_fields zero_start_facts(3)
    by (simp add: pct_change_def n fdiv_def)
  show "Return_26W (last (rows zero_start_frame)) = NaN"
    unfolding l indicator_row_fields by (simp add: pct_change_def)
qed

text \<open>
  C9 bounds \<open>calculate_rs_score\<close> by 0 and 25 for every input. On the frame of a series
  whose close was 0 sixty-five periods back, taken as stock and as benchmark, the
  13-week returns are both \<open>+inf\<close>; they pass the \<open>np.isnan\<close> test, their difference is NaN
  and so is the score.
\<close>

theorem rs_score_nan_on_zero_start:
  "Close (hd zero_start_series) = 0
   \<and> Return_13W (last (rows zero_start_frame)) = PInf
   \<and> fst (calculate_rs_score zero_start_frame zero_start_frame) = NaN"
proof -
  have e: "\<not> frame_empty zero_start_frame"
    unfolding zero_start_frame_def
    by (rule not_empty_calculate_indicators [OF zero_start_facts(2)])
  have c: "has_column zero_start_frame ''Return_13W''"
    unfolding zero_start_frame_def
    by (rule has_column_calculate_indicators [OF zero_start_facts(2)])
  have h13: "fst (rs_horizon (has_column zero_start_frame ''Return_13W''
         \<and> has_column zero_start_frame ''Return_13W'') PInf PInf (2 / 10) ''13w'') = NaN"
    using c by (intro rs_horizon_nan) (simp_all add: same_infinity_def)
  have h26: "fst (rs_horizon (has_column zero_start_frame ''Return_26W''
         \<and> has_column zero_start_frame ''Return_26W'') NaN NaN (3 / 10) ''26w'') = Fin 0"
    by (simp add: rs_horizon_def)
  have "fst (calculate_rs_score zero_start_frame zero_start_frame) = NaN"
    unfolding rs_score_eq [OF e e] zero_start_returns h13 h26 by simp
  then show ?thesis
    using zero_start_returns(1) by (simp add: zero_start_series_def zero_bar_def)
qed

text \<open>
  The other four sub-scores keep their bounds on every input, and so does the
  relative-strength score when on neither horizon the two returns are the same infinity.
\<close>

lemma sub_score_bounds:
  "0 \<le> fst (calculate_trend_score df) \<and> fst (calculate_trend_score df) \<le> 25"
  "0 \<le> fst (calculate_pattern_score v p b) \<and> fst (calculate_pattern_score v p b) \<le> 20"
  "0 \<le> fst (calculate_fundamental_score fos fdata)
     \<and> fst (calculate_fundamental_score fos fdata) \<le> 30"
  "0 \<le> fst (calculate_investor_score idata 12) \<and> fst (calculate_investor_score idata 12) \<le> 12"
  "\<not> same_infinity (Return_13W (last (rows s))) (Return_13W (last (rows m)))
   \<Longrightarrow> \<not> same_infinity (Return_26W (last (rows s))) (Return_26W (last (rows m)))
   \<Longrightarrow> \<exists>x. fst (calculate_rs_score s m) = Fin x \<and> 0 \<le> x \<and> x \<le> 25"
  using trend_score_bounds pattern_score_bounds fundamental_score_bounds investor_score_bounds
    rs_score_bounds by blast+

subsection \<open>Codes\<close>

lemma zfill_long: "w \<le> length s \<Longrightarrow> zfill w s = s"
  by (cases s) (auto simp: zfill_def)

lemma length_zfill: "w \<le> length (zfill w s)"
  by (cases s) (auto simp: zfill_def)

lemma zfill_idem: "zfill w (zfill w s) = zfill w s"
  by (rule zfill_long [OF length_zfill])

lemma digit_chars: "list_all is_digit ''0123456789''"
  by (simp add: is_digit_def digit_value_def)

lemma str_of_nat_digits: "str_of_nat n \<noteq> [] \<and> list_all is_digit (str_of_nat n)"
proof (induction n rule: str_of_nat.induct)
  case (1 n)
  have d: "is_digit (''0123456789'' ! k)" if "k < 10" for k
    using digit_chars that unfolding list_all_length by simp
  show ?case
  proof (cases "n < 10")
    case True
    then show ?thesis using d [of n] by (subst (1 2) str_of_nat.simps) simp
  next
    case False
    have "n mod 10 < 10" by simp
    then show ?thesis
      using 1 [OF False] d [of "n mod 10"] False
      by (subst (1 2) str_of_nat.simps) simp
  qed
qed

lemma zfill_digits:
  assumes "s \<noteq> []" and "list_all is_digit s"
  shows "zfill w s \<noteq> [] \<and> list_all is_digit (zfill w s)"
proof -
  obtain c rest where s: "s = c # rest" using assms(1) by (cases s) auto
  have "is_digit c" using assms(2) s by simp
  then have "c \<noteq> CHR ''+''" "c \<noteq> CHR ''-''" by (auto simp: is_digit_def digit_value_def)
  then have z: "zfill w s = replicate (w - length s) CHR ''0'' @ s"
    by (simp add: zfill_def s)
  have "is_digit CHR ''0''" by (simp add: is_digit_def digit_value_def)
  then have "list_all is_digit (replicate (w - length s) CHR ''0'')"
    by (simp add: list_all_iff)
  then show ?thesis unfolding z using assms by simp
qed

lemma dropWhile_none:
  assumes "list_all P xs" and "\<And>c. P c \<Longrightarrow> \<not> Q c"
  shows "dropWhile Q xs = xs"
  using assms by (cases xs) auto

lemma digit_not_space: "is_digit c \<Longrightarrow> \<not> is_space c"
  by (auto simp: is_digit_def digit_value_def is_space_def Let_def split: if_splits)

lemma normalize_code_digits:
  assumes "s \<noteq> []" and "list_all is_digit s"
  shows "normalize_code (Str s) = Some (zfill 6 s)"
proof -
  have "dropWhile is_space s = s"
    using assms(2) digit_not_space by (rule dropWhile_none)
  moreover have "list_all is_digit (rev s)"
    using assms(2) by (simp add: list_all_iff)
  then have "dropWhile is_space (rev s) = rev s"
    using digit_not_space by (rule dropWhile_none)
  ultimately have st: "strip s = s" by (simp add: strip_def)
  have n: "\<forall>c\<in>set s. c \<noteq> CHR ''.'' \<and> c \<noteq> CHR ''-''"
    using assms(2) by (auto simp: list_all_iff is_digit_def digit_value_def)
  have f1: "filter (\<lambda>c. c \<noteq> CHR ''.'') s = s" using n by (simp add: filter_id_conv)
  have f2: "filter (\<lambda>c. c \<noteq> CHR ''-'') s = s" using n by (simp add: filter_id_conv)
  show ?thesis
    unfolding normalize_code_def pyval.case Let_def st f1 f2
    using assms by (simp add: isdigit_def)
qed

subsection \<open>The collection loop\<close>

lemma count_result_counters:
  "processed_count (count_result t r s) = processed_count s + 1"
  "error_count (count_result t r s) = error_count s + (if truthy r then 0 else 1)"
  "success_count (count_result t r s) = success_count s + (if truthy r then 1 else 0)"
  by (cases r; simp add: count_result_def Let_def)+

lemma collect_returned:
  "collect t (map Returned rs) s = (fold (count_result t) rs s, False)"
  by (induction rs arbitrary: s) simp_all

lemma fold_count_result:
  "processed_count (fold (count_result t) rs s) = processed_count s + length rs"
  "error_count (fold (count_result t) rs s)
     = error_count s + length (filter (\<lambda>r. \<not> truthy r) rs)"
  "success_count (fold (count_result t) rs s) = success_count s + length (filter truthy rs)"
  by (induction rs arbitrary: s) (simp_all add: count_result_counters)

text \<open>No run is stopped early, and every run collects the result of every task,
  whatever the tasks end in.\<close>

lemma run_never_stopped:
  assumes "run_screening pipeline as_completed markets all_stocks = Some r"
  shows "\<not> stopped r"
proof -
  have c: "snd (collect t (map (\<lambda>row. Returned (process_single_stock pipeline row)) xs) s)
             = False" for t xs s
    using collect_returned [of t "map (process_single_stock pipeline) xs" s]
    by (simp add: comp_def)
  show ?thesis
    using assms c
    by (auto simp: run_screening_def Let_def split_beta split: if_splits)
qed

subsection \<open>The run of the hundred stocks\<close>

lemma valid_stocks_append: "valid_stocks (xs @ ys) = valid_stocks xs @ valid_stocks ys"
  by (induction xs) (simp_all split: option.splits)

lemma valid_stocks_listed: "valid_stocks (map (listed market) ns) = map (listed market) ns"
proof (induction ns)
  case Nil
  then show ?case by simp
next
  case (Cons n ns)
  have d: "zfill 6 (str_of_nat n) \<noteq> []" "list_all is_digit (zfill 6 (str_of_nat n))"
    using zfill_digits [of "str_of_nat n" 6] str_of_nat_digits [of n] by blast+
  have "normalize_code (Code (listed market n)) = Some (zfill 6 (str_of_nat n))"
    using normalize_code_digits [OF d] by (simp add: listed_def zfill_idem)
  moreover have "listed market n\<lparr>Code := Str (zfill 6 (str_of_nat n))\<rparr> = listed market n"
    by (simp add: listed_def)
  ultimately show ?case using Cons by simp
qed

lemma hundred_stocks_facts:
  "length hundred_stocks = 100"
  "hundred_stocks \<noteq> []"
  "valid_stocks hundred_stocks = hundred_stocks"
  "filter (\<lambda>row. Market row \<in> set [''KOSPI'', ''KOSDAQ'']) hundred_stocks = hundred_stocks"
  "map (process_single_stock kosdaq_down) hundred_stocks
     = replicate 60 None @ replicate 40 (Some stock_result)"
proof -
  show l: "length hundred_stocks = 100" by (simp add: hundred_stocks_def)
  then show "hundred_stocks \<noteq> []" by auto
  show "valid_stocks hundred_stocks = hundred_stocks"
    unfolding hundred_stocks_def valid_stocks_append valid_stocks_listed ..
  have k: "filter (\<lambda>row. Market row \<in> set [''KOSPI'', ''KOSDAQ'']) (map (listed market) ns)
             = map (listed market) ns"
    if "market \<in> set [''KOSPI'', ''KOSDAQ'']" for market ns
    using that by (induction ns) (simp_all add: listed_def)
  show "filter (\<lambda>row. Market row \<in> set [''KOSPI'', ''KOSDAQ'']) hundred_stocks = hundred_stocks"
    unfolding hundred_stocks_def filter_append
    by (simp only: k [of "''KOSPI''"] k [of "''KOSDAQ''"] list.set_intros)
  have a: "map (process_single_stock kosdaq_down) (map (listed ''KOSDAQ'') ns)
             = replicate (length ns) None" for ns
    by (induction ns) (simp_all add: process_single_stock_def kosdaq_down_def listed_def)
  have b: "map (process_single_stock kosdaq_down) (map (listed ''KOSPI'') ns)
             = replicate (length ns) (Some stock_result)" for ns
    by (induction ns) (simp_all add: process_single_stock_def kosdaq_down_def listed_def)
  show "map (process_single_stock kosdaq_down) hundred_stocks
     = replicate 60 None @ replicate 40 (Some stock_result)"
  proof -
    have l: "length [1..<61] = 60" "length [61..<101] = 40" by simp_all
    show ?thesis unfolding hundred_stocks_def map_append a b l ..
  qed
qed

lemma collect_tasks:
  "collect t (map (\<lambda>row. Returned (f row)) xs) s = (fold (count_result t) (map f xs) s, False)"
  using collect_returned [of t "map f xs" s] by (simp add: comp_def)

lemma kosdaq_down_run_eq:
  "kosdaq_down_run =
     Some \<lparr>final = fold (count_result 100)
                     (map (process_single_stock kosdaq_down) hundred_stocks)
                     initial_run_state,
           stopped = False, tasks_run = 100\<rparr>"
proof -
  have k: "filter (\<lambda>row. Market row = ''KOSPI'' \<or> Market row = ''KOSDAQ'') hundred_stocks
             = hundred_stocks"
    using hundred_stocks_facts(4) by simp
  show ?thesis
    using hundred_stocks_facts(2)
    by (simp add: kosdaq_down_run_def run_screening_def Let_def k hundred_stocks_facts(1,3)
        in_submission_order_def collect_tasks)
qed

subsection \<open>C3: the circuit breaker\<close>

text \<open>
  C3: a run in which the failures exceed half of the tasks stops early; of 100 symbols
  of which 60 fail, not all are processed. In the run of the hundred stocks the 60 tasks
  of the KOSDAQ stocks fail: \<open>process_single_stock\<close> turns the exception of each into the
  result \<open>None\<close>, which the loop counts in \<open>error_count\<close> without testing it against the
  threshold. The loop is not left by \<open>break\<close>: all 100 results are collected, 60 of them
  failures, and all 100 tasks are run. No run is left by \<open>break\<close>, whatever the universe,
  the markets, the order of completion and the outcomes of the analyses.
\<close>

theorem failed_tasks_never_stop_run:
  "length hundred_stocks = 100
   \<and> length (filter (\<lambda>row. process_single_stock kosdaq_down row = None) hundred_stocks) = 60
   \<and> map_option stopped kosdaq_down_run = Some False
   \<and> map_option tasks_run kosdaq_down_run = Some 100
   \<and> map_option (\<lambda>r. processed_count (final r)) kosdaq_down_run = Some 100
   \<and> map_option (\<lambda>r. error_count (final r)) kosdaq_down_run = Some 60
   \<and> map_option (\<lambda>r. success_count (final r)) kosdaq_down_run = Some 40
   \<and> (\<forall>pipeline as_completed markets all_stocks.
         map_option stopped (run_screening pipeline as_completed markets all_stocks)
           \<noteq> Some True)"
proof -
  have g: "map_option stopped (run_screening pipeline as_completed markets all_stocks)
             \<noteq> Some True" for pipeline as_completed markets all_stocks
    using run_never_stopped [of pipeline as_completed markets all_stocks]
    by (cases "run_screening pipeline as_completed markets all_stocks") simp_all
  have "length (filter (\<lambda>r. r = None) (map (process_single_stock kosdaq_down) hundred_stocks))
          = 60"
    unfolding hundred_stocks_facts(5) by (simp add: stock_result_def)
  then have f: "length (filter (\<lambda>row. process_single_stock kosdaq_down row = None)
                  hundred_stocks) = 60"
    by (simp add: filter_map comp_def)
  have e: "length (filter (\<lambda>r. \<not> truthy r)
                  (map (process_single_stock kosdaq_down) hundred_stocks)) = 60"
    unfolding hundred_stocks_facts(5) by (simp add: stock_result_def)
  have c: "length (filter truthy
                  (map (process_single_stock kosdaq_down) hundred_stocks)) = 40"
    unfolding hundred_stocks_facts(5) by (simp add: stock_result_def)
  show ?thesis
    unfolding kosdaq_down_run_eq
    using f e c g
    by (simp add: hundred_stocks_facts(1) fold_count_result initial_run_state_def)
qed

subsection \<open>Dict updates\<close>




subsection \<open>The tags of the tiers\<close>















subsection \<open>The order of the tiers\<close>


lemma truthy_iff: "truthy r \<longleftrightarrow> (\<exists>d. r = Some d \<and> d \<noteq> [])"
  by (cases r) simp_all



lemma default_estimate_tagged:
  "dict_get (generate_default_financial_data self code) ''source'' NoneV
     \<in> set default_estimate_tags"
proof (cases "estimate_sector (zfill 6 code)")
  case None
  then show ?thesis
    by (simp add: generate_default_financial_data_def dict_get_def default_estimate_tags_def)
next
  case (Some sector)
  then have s: "sector = ''tech'' \<or> sector = ''manufacturing'' \<or> sector = ''default''"
    by (auto simp: estimate_sector_def split: option.splits if_splits)
  have "dict_get (generate_default_financial_data self code) ''source'' NoneV
          = Str (''estimated_'' @ sector)"
    using Some by (simp add: generate_default_financial_data_def dict_get_def Let_def)
  then show ?thesis using s by (auto simp: default_estimate_tags_def)
qed



subsection \<open>The two resolutions of 005930\<close>









subsection \<open>C2: the priority of the tiers\<close>




end
